theory Spec2Isabelle
  imports Main "HOL-Library.Word" "HOL-Library.Countable"
begin

section \<open>Escrow identifiers: \<open>generateULID\<close> (issuer/escrow.ts)\<close>

text \<open>
  The alphabet is the Crockford base-32 string of the source. Indexing a JavaScript string
  out of range yields \<open>undefined\<close>, and \<open>undefined\<close> concatenated to a string is the
  text \<open>undefined\<close>; \<open>enc_char\<close> keeps that branch.
\<close>

definition ENCODING :: string where
  "ENCODING = ''0123456789ABCDEFGHJKMNPQRSTVWXYZ''"

definition enc_char :: "nat \<Rightarrow> string" where
  "enc_char i = (if i < length ENCODING then [ENCODING ! i] else ''undefined'')"

text \<open>The module-level variables \<open>lastTime\<close> and \<open>lastRandom\<close>.\<close>

record ulid_state =
  lastTime :: nat
  lastRandom :: nat

text \<open>
  The timestamp loop \<open>for (i = 9; i >= 0; i--) { ts = ENCODING[now % 32] + ts; now = floor(now / 32) }\<close>:
  the first argument counts the iterations that remain. \<open>Date.now()\<close> is a number of
  milliseconds since the epoch, a natural number.
\<close>

fun encode_ts :: "nat \<Rightarrow> nat \<Rightarrow> string \<Rightarrow> string" where
  "encode_ts 0 now ts = ts"
| "encode_ts (Suc n) now ts = encode_ts n (now div 32) (enc_char (now mod 32) @ ts)"

text \<open>
  \<open>ENCODING[randBytes[j] % 32]\<close>: a read past the end of the buffer is \<open>undefined\<close>,
  \<open>undefined % 32\<close> is \<open>NaN\<close>, and \<open>ENCODING[NaN]\<close> is \<open>undefined\<close>.
\<close>

definition rand_char :: "8 word list \<Rightarrow> nat \<Rightarrow> string" where
  "rand_char randBytes j =
     (if j < length randBytes then enc_char (unat (randBytes ! j) mod 32) else ''undefined'')"

text \<open>
  The loop \<open>for (i = 0; i < 16; i++) rand += ENCODING[randBytes[i % 10] % 32]\<close>, with the
  loop index and the number of iterations that remain.
\<close>

fun encode_rand :: "8 word list \<Rightarrow> nat \<Rightarrow> nat \<Rightarrow> string \<Rightarrow> string" where
  "encode_rand randBytes i 0 rand = rand"
| "encode_rand randBytes i (Suc n) rand =
     encode_rand randBytes (Suc i) n (rand @ rand_char randBytes (i mod 10))"

text \<open>
  \<open>generateULID\<close> reads the clock (\<open>now\<close>), may draw \<open>crypto.randomInt(0, 2 ** 40)\<close>
  (\<open>randInt\<close>) and draws \<open>crypto.randomBytes(10)\<close> (\<open>randBytes\<close>). It returns the
  identifier and the updated module state.
\<close>

definition generateULID :: "ulid_state \<Rightarrow> nat \<Rightarrow> nat \<Rightarrow> 8 word list \<Rightarrow> string \<times> ulid_state" where
  "generateULID st now randInt randBytes =
     (let st' = (if now = lastTime st
                 then st\<lparr>lastRandom := lastRandom st + 1\<rparr>
                 else st\<lparr>lastTime := now, lastRandom := randInt\<rparr>);
          ts = encode_ts 10 now [];
          rand = encode_rand randBytes 0 16 []
      in (ts @ rand, st'))"

section \<open>Batch verification: \<open>aggregateProofs\<close> (verifier/aggregate.ts)\<close>

text \<open>
  What a \<open>catch\<close> clause can receive: an \<open>Error\<close> object with its message, or any other
  thrown value.
\<close>

datatype thrown = ErrorObj string | NonError

record 'p AggregateProofEntry =
  proofObj :: 'p
  publicSignals :: "string list"

record AggregateResultEntry =
  index :: nat
  valid :: bool
  error :: "string option"

record AggregateResult =
  allValid :: bool
  total :: nat
  validCount :: nat
  results :: "AggregateResultEntry list"

text \<open>The outcome of one promise under \<open>Promise.allSettled\<close>.\<close>

datatype 'a settled = Fulfilled 'a | Rejected

text \<open>
  \<open>verifyProofWithKey\<close> hands its arguments to \<open>snarkjs.groth16.verify\<close>, a library that
  is not part of the repository: it is the parameter \<open>groth16\<close>, which returns a boolean
  or throws.
\<close>

definition verifyProofWithKey ::
  "('v \<Rightarrow> string list \<Rightarrow> 'p \<Rightarrow> thrown + bool) \<Rightarrow> 'p \<Rightarrow> string list \<Rightarrow> 'v \<Rightarrow> thrown + bool" where
  "verifyProofWithKey groth16 prf sigs vkey = groth16 vkey sigs prf"

text \<open>
  The mapper given to \<open>proofs.map\<close>. Its whole body stands inside \<open>try\<close>, so the promise
  it returns is always fulfilled.
\<close>

definition verify_entry ::
  "('v \<Rightarrow> string list \<Rightarrow> 'p \<Rightarrow> thrown + bool) \<Rightarrow> 'v \<Rightarrow> 'p AggregateProofEntry \<Rightarrow> nat
     \<Rightarrow> AggregateResultEntry settled" where
  "verify_entry groth16 vkey entry i =
     (case verifyProofWithKey groth16 (proofObj entry) (publicSignals entry) vkey of
        Inr v \<Rightarrow> Fulfilled \<lparr>index = i, valid = v, error = None\<rparr>
      | Inl err \<Rightarrow>
          Fulfilled \<lparr>index = i, valid = False,
            error = Some (case err of ErrorObj msg \<Rightarrow> msg | NonError \<Rightarrow> ''Unknown error'')\<rparr>)"

definition settled_entry :: "AggregateResultEntry settled \<Rightarrow> AggregateResultEntry" where
  "settled_entry r =
     (case r of
        Fulfilled v \<Rightarrow> v
      | Rejected \<Rightarrow> \<lparr>index = 0, valid = False, error = Some ''Verification threw unexpectedly''\<rparr>)"

definition aggregateProofs ::
  "('v \<Rightarrow> string list \<Rightarrow> 'p \<Rightarrow> thrown + bool) \<Rightarrow> 'p AggregateProofEntry list \<Rightarrow> 'v \<Rightarrow> AggregateResult" where
  "aggregateProofs groth16 proofs vkey =
     (if length proofs = 0
      then \<lparr>allValid = True, total = 0, validCount = 0, results = []\<rparr>
      else
        (let settledResults = map (\<lambda>(entry, i). verify_entry groth16 vkey entry i)
                                  (zip proofs [0..<length proofs]);
             entries = map settled_entry settledResults;
             cnt = length (filter valid entries)
         in \<lparr>allValid = (cnt = length proofs), total = length proofs,
             validCount = cnt, results = entries\<rparr>))"

text \<open>
  \<open>aggregateRequestSchema\<close> (the middleware's Zod schema): between 1 and 100 entries, each
  with between 1 and 50 public signals. \<open>validateBody\<close> answers 400 when the schema
  rejects the body and lets the handler run otherwise.
\<close>

definition aggregateRequestSchema :: "'p AggregateProofEntry list \<Rightarrow> bool" where
  "aggregateRequestSchema proofs =
     (1 \<le> length proofs \<and> length proofs \<le> 100 \<and>
      list_all (\<lambda>e. 1 \<le> length (publicSignals e) \<and> length (publicSignals e) \<le> 50) proofs)"

datatype 'a http_response = Response nat 'a | ValidationError

text \<open>
  The route \<open>POST /proof/aggregate\<close> after authentication. The body is validated; the
  verification key file is looked up (\<open>None\<close> when it does not exist, answered with 503);
  reading and parsing it gives the key or throws (\<open>Inl\<close>, answered with 500 by the
  handler's \<open>catch\<close>); the batch is verified and returned with 200.
\<close>

definition aggregate_route ::
  "('v \<Rightarrow> string list \<Rightarrow> 'p \<Rightarrow> thrown + bool) \<Rightarrow> (thrown + 'v) option
     \<Rightarrow> 'p AggregateProofEntry list \<Rightarrow> (AggregateResult option) http_response" where
  "aggregate_route groth16 vkeyFile proofs =
     (if \<not> aggregateRequestSchema proofs then ValidationError
      else case vkeyFile of
             None \<Rightarrow> Response 503 None
           | Some (Inl t) \<Rightarrow> Response 500 None
           | Some (Inr vkey) \<Rightarrow> Response 200 (Some (aggregateProofs groth16 proofs vkey)))"

text \<open>
  The result entry that \<open>aggregateProofs\<close> computes for the entry at position \<open>i\<close>: the
  mapper's promise, unwrapped as the \<open>results.map\<close> after \<open>Promise.allSettled\<close> does.
\<close>

definition entry_result ::
  "('v \<Rightarrow> string list \<Rightarrow> 'p \<Rightarrow> thrown + bool) \<Rightarrow> 'v \<Rightarrow> 'p AggregateProofEntry \<Rightarrow> nat
     \<Rightarrow> AggregateResultEntry" where
  "entry_result groth16 vkey entry i = settled_entry (verify_entry groth16 vkey entry i)"

text \<open>Verifiers for concrete runs: one that rejects every proof, one that depends on the signals.\<close>

definition groth16_false :: "unit \<Rightarrow> string list \<Rightarrow> unit \<Rightarrow> thrown + bool" where
  "groth16_false vkey sigs prf = Inr False"

definition groth16_demo :: "unit \<Rightarrow> string list \<Rightarrow> unit \<Rightarrow> thrown + bool" where
  "groth16_demo vkey sigs prf =
     (if sigs = [''ok''] then Inr True
      else if sigs = [''bad''] then Inr False
      else Inl (ErrorObj ''malformed''))"

section \<open>The in-memory cache: \<open>LRUMemoryCache\<close> (verifier/cache.ts)\<close>

record MemoryCacheEntry =
  mc_valid :: bool
  mc_nullifier :: string
  timestamp :: nat

text \<open>
  A JavaScript \<open>Map\<close> keeps its keys in insertion order: an association list, oldest key
  first. \<open>Map.set\<close> on a key that is present replaces its value where it stands; on a new
  key it appends. \<open>Map.delete\<close> removes the key.
\<close>

definition map_set :: "('k \<times> 'v) list \<Rightarrow> 'k \<Rightarrow> 'v \<Rightarrow> ('k \<times> 'v) list" where
  "map_set m k v =
     (if k \<in> fst ` set m then map (\<lambda>(k', v'). if k' = k then (k, v) else (k', v')) m
      else m @ [(k, v)])"

definition map_delete :: "('k \<times> 'v) list \<Rightarrow> 'k \<Rightarrow> ('k \<times> 'v) list" where
  "map_delete m k = filter (\<lambda>(k', v'). k' \<noteq> k) m"

record LRUMemoryCache =
  cache :: "(string \<times> MemoryCacheEntry) list"
  maxSize :: nat
  ttlMs :: nat

text \<open>
  \<open>get(key)\<close> at clock reading \<open>now\<close>: the value returned and the cache afterwards.
  \<open>Date.now() - entry.timestamp\<close> is a subtraction of JavaScript numbers, so it is taken
  over the integers.
\<close>

definition lru_get :: "LRUMemoryCache \<Rightarrow> string \<Rightarrow> nat \<Rightarrow> MemoryCacheEntry option \<times> LRUMemoryCache" where
  "lru_get c key now =
     (case map_of (cache c) key of
        None \<Rightarrow> (None, c)
      | Some entry \<Rightarrow>
          if int now - int (timestamp entry) > int (ttlMs c)
          then (None, c\<lparr>cache := map_delete (cache c) key\<rparr>)
          else (Some entry, c\<lparr>cache := map_set (map_delete (cache c) key) key entry\<rparr>))"

text \<open>
  \<open>set(key, valid, nullifier)\<close> at clock reading \<open>now\<close>. \<open>this.cache.keys().next().value\<close>
  is the first key of the map, \<open>undefined\<close> when the map is empty.
\<close>

definition lru_set :: "LRUMemoryCache \<Rightarrow> string \<Rightarrow> bool \<Rightarrow> string \<Rightarrow> nat \<Rightarrow> LRUMemoryCache" where
  "lru_set c key v nullifier now =
     (let c1 = (if length (cache c) \<ge> maxSize c
                then (case cache c of
                        [] \<Rightarrow> c
                      | (oldest, e) # rest \<Rightarrow> c\<lparr>cache := map_delete (cache c) oldest\<rparr>)
                else c)
      in c1\<lparr>cache := map_set (cache c1) key
                \<lparr>mc_valid = v, mc_nullifier = nullifier, timestamp = now\<rparr>\<rparr>)"

text \<open>A cache for concrete runs: one entry written at time 0, room for ten, a TTL of 1000 ms.\<close>

definition lru_demo :: LRUMemoryCache where
  "lru_demo = \<lparr>cache = [(''a'', \<lparr>mc_valid = True, mc_nullifier = ''n'', timestamp = 0\<rparr>)],
               maxSize = 10, ttlMs = 1000\<rparr>"

section \<open>The platform: JSON, AES-GCM, SHA-256, clock and randomness\<close>

text \<open>
  Values that \<open>JSON.stringify\<close> and \<open>JSON.parse\<close> exchange. An object keeps its keys in
  order.
\<close>

datatype json =
    JNull
  | JBool bool
  | JNum int
  | JStr string
  | JArr "json list"
  | JObj "(string \<times> json) list"

text \<open>Property access \<open>j.k\<close> (\<open>undefined\<close> is \<open>None\<close>) and JavaScript truthiness.\<close>

fun field :: "json \<Rightarrow> string \<Rightarrow> json option" where
  "field (JObj kvs) k = map_of kvs k"
| "field _ k = None"

fun truthy :: "json \<Rightarrow> bool" where
  "truthy JNull = False"
| "truthy (JBool b) = b"
| "truthy (JNum n) = (n \<noteq> 0)"
| "truthy (JStr s) = (s \<noteq> [])"
| "truthy _ = True"

type_synonym bytes = "8 word list"

text \<open>
  The library functions the server calls and the repository does not define are the
  fields of \<open>prims\<close>:
  \<^item> \<open>gcm_seal key iv plaintext\<close> is \<open>createCipheriv('aes-256-gcm', key, iv)\<close> run over the
    UTF-8 bytes of the plaintext, giving the ciphertext and the tag in hexadecimal;
  \<^item> \<open>gcm_open key iv ciphertext tag\<close> is \<open>createDecipheriv\<close> with \<open>setAuthTag\<close>, over the
    hexadecimal fields of a payload; it throws (\<open>Inl\<close>, with the message) or returns the
    plaintext;
  \<^item> \<open>sha256_hex\<close> is \<open>createHash('sha256').update(s).digest('hex')\<close>;
  \<^item> \<open>JSON_stringify\<close> and \<open>JSON_parse\<close> (which throws a \<open>SyntaxError\<close> with a message);
  \<^item> \<open>toISOString\<close> formats a time in milliseconds.
\<close>

record prims =
  gcm_seal :: "bytes \<Rightarrow> bytes \<Rightarrow> string \<Rightarrow> string \<times> string"
  gcm_open :: "bytes \<Rightarrow> string \<Rightarrow> string \<Rightarrow> string \<Rightarrow> string + string"
  sha256_hex :: "string \<Rightarrow> string"
  JSON_stringify :: "json \<Rightarrow> string"
  JSON_parse :: "string \<Rightarrow> string + json"
  toISOString :: "nat \<Rightarrow> string"

text \<open>
  The clock and the random generator are an oracle: the \<open>t\<close>-th read of the process
  returns \<open>clock t\<close> if it is \<open>Date.now()\<close>, and the bytes \<open>random_byte t 0\<close>,
  \<open>random_byte t 1\<close>, ... if it is \<open>crypto.randomBytes\<close>. \<open>all_async_iterable\<close> tells
  whether the \<open>all\<close> of a KeyValue store of the OrbitDB version in use is an async
  iterable (\<open>all && typeof all[Symbol.asyncIterator] === 'function'\<close>).
\<close>

record world =
  clock :: "nat \<Rightarrow> nat"
  random_byte :: "nat \<Rightarrow> nat \<Rightarrow> 8 word"
  all_async_iterable :: bool

text \<open>\<open>Buffer.toString('hex')\<close>.\<close>

definition hex_digit :: "nat \<Rightarrow> char" where
  "hex_digit n = ''0123456789abcdef'' ! (n mod 16)"

definition to_hex :: "bytes \<Rightarrow> string" where
  "to_hex bs = concat (map (\<lambda>b. [hex_digit (unat b div 16), hex_digit (unat b mod 16)]) bs)"

text \<open>\<open>String.prototype.includes\<close>.\<close>

definition str_includes :: "string \<Rightarrow> string \<Rightarrow> bool" where
  "str_includes s sub = list_ex (\<lambda>i. take (length sub) (drop i s) = sub) [0..<Suc (length s)]"

section \<open>The stores and their encryption wrappers (db/stores.ts, crypto/aes.ts)\<close>

record EncryptedPayload =
  iv :: string
  ciphertext :: string
  tag :: string
  algorithm :: string

text \<open>
  \<open>expiresAt\<close> is a JavaScript number that can be \<open>NaN\<close> (see \<open>getRetentionMs\<close>);
  \<open>JSON.stringify\<close> writes \<open>NaN\<close> as \<open>null\<close>. Both are \<open>None\<close> here.
\<close>

record EscrowEntry =
  encryptedBlob :: EncryptedPayload
  regulatorKeyId :: string
  credentialId :: string
  createdAt :: nat
  expiresAt :: "nat option"
  invalidated :: bool
  integrityHash :: string

record NullifierEntry =
  used :: bool
  ne_credentialId :: string
  appId :: string
  usedAt :: nat

record ProofCacheEntry =
  pc_valid :: bool
  verifiedAt :: nat
  pc_nullifier :: string

datatype action =
    escrow_create | escrow_access | escrow_rotate | escrow_purge
  | credential_issue | credential_bind | proof_verify | nullifier_register

record AuditLogEntry =
  action :: action
  resourceId :: string
  actor :: string
  audit_timestamp :: nat
  metadata :: "(string \<times> string) list"

text \<open>The value written under a key of a KeyValue store, and a record of the event log.\<close>

record kv_record =
  enc :: string
  kv_iv :: string
  kv_tag :: string
  alg :: string

record log_record =
  log_enc :: string
  log_iv :: string
  log_tag :: string

text \<open>
  The OrbitDB stores the claims read and write: three KeyValue stores (a key has one value;
  \<open>all\<close> iterates over the pairs) and the append-only event log. The credentials store
  takes no part in them and is left out.
\<close>

record ZeroIdStores =
  escrow :: "(string \<times> kv_record) list"
  nullifiers :: "(string \<times> kv_record) list"
  proofCache :: "(string \<times> kv_record) list"
  auditLog :: "log_record list"

datatype kv_store = EscrowKV | NullifiersKV | ProofCacheKV

text \<open>
  The module state of the server: \<open>storesInstance\<close>, \<open>storeKeys\<close>, the \<open>memoryCache\<close> of
  the verifier, and the number of clock and random reads made so far.
\<close>

record server =
  storesInstance :: "ZeroIdStores option"
  storeKeys :: "string \<rightharpoonup> bytes"
  memoryCache :: LRUMemoryCache
  ticks :: nat

text \<open>
  Every \<open>throw\<close> of the modelled functions. \<open>MalformedValue\<close> is not thrown by the source:
  it marks a stored value that lacks the fields of the type it is cast to, where the
  source would go on with \<open>undefined\<close>; the model stops there.
\<close>

datatype err =
    StoresNotOpened
  | StoreKeyNotDerived string
  | AesKeyLength nat
  | CryptoThrow string
  | JsonSyntax string
  | EscrowNotFound string
  | EscrowInvalidated string
  | EscrowExpired string
  | EscrowIntegrity
  | VkeyNotFound
  | VerifierThrow thrown
  | MalformedValue

text \<open>The decimal text of a number, for the one message that prints one.\<close>

fun digits_of :: "nat \<Rightarrow> nat \<Rightarrow> string" where
  "digits_of 0 n = []"
| "digits_of (Suc fuel) n =
     (if n < 10 then [''0123456789'' ! n]
      else digits_of fuel (n div 10) @ [''0123456789'' ! (n mod 10)])"

definition show_nat :: "nat \<Rightarrow> string" where
  "show_nat n = digits_of (Suc n) n"

text \<open>
  \<open>err.message\<close>. The dash of the source's messages is written \<open>-\<close> here.
\<close>

fun message :: "err \<Rightarrow> string" where
  "message StoresNotOpened = ''[ZeroID] Stores not opened - call openStores() first''"
| "message (StoreKeyNotDerived n) =
     ''Store key not derived for \"'' @ n @ ''\" - call deriveStoreKeys() first''"
| "message (AesKeyLength n) = ''AES key must be 32 bytes, got '' @ show_nat n"
| "message (CryptoThrow m) = m"
| "message (JsonSyntax m) = m"
| "message (EscrowNotFound i) = ''Escrow entry not found: '' @ i"
| "message (EscrowInvalidated i) = ''Escrow entry has been invalidated (GDPR erasure): '' @ i"
| "message (EscrowExpired i) = ''Escrow entry has expired: '' @ i"
| "message EscrowIntegrity = ''Escrow integrity check failed - data may be corrupted''"
| "message VkeyNotFound = ''Verification key not found''"
| "message (VerifierThrow (ErrorObj m)) = m"
| "message (VerifierThrow NonError) = []"
| "message MalformedValue = []"

text \<open>
  A function of the server takes the state and returns a value or the error it threw,
  with the state at that point: what was written before a \<open>throw\<close> stays written.
\<close>

type_synonym 'a M = "server \<Rightarrow> (err + 'a) \<times> server"

definition retE :: "'a \<Rightarrow> 'a M" where
  "retE x s = (Inr x, s)"

definition throwE :: "err \<Rightarrow> 'a M" where
  "throwE e s = (Inl e, s)"

definition bindM :: "'a M \<Rightarrow> ('a \<Rightarrow> 'b M) \<Rightarrow> 'b M" where
  "bindM m f s = (case m s of (Inl e, s') \<Rightarrow> (Inl e, s') | (Inr x, s') \<Rightarrow> f x s')"

definition Date_now :: "world \<Rightarrow> nat M" where
  "Date_now W s = (Inr (clock W (ticks s)), s\<lparr>ticks := Suc (ticks s)\<rparr>)"

definition randomBytes :: "world \<Rightarrow> nat \<Rightarrow> bytes M" where
  "randomBytes W n s = (Inr (map (random_byte W (ticks s)) [0..<n]), s\<lparr>ticks := Suc (ticks s)\<rparr>)"

definition getStores :: "ZeroIdStores M" where
  "getStores s = (case storesInstance s of None \<Rightarrow> (Inl StoresNotOpened, s) | Some st \<Rightarrow> (Inr st, s))"

definition getStoreKey :: "string \<Rightarrow> bytes M" where
  "getStoreKey storeName s =
     (case storeKeys s storeName of
        None \<Rightarrow> (Inl (StoreKeyNotDerived storeName), s)
      | Some k \<Rightarrow> (Inr k, s))"

text \<open>\<open>store.get(key)\<close>, \<open>store.put(key, value)\<close> and \<open>auditLog.add(value)\<close> on the opened stores.\<close>

definition kv_of :: "kv_store \<Rightarrow> ZeroIdStores \<Rightarrow> (string \<times> kv_record) list" where
  "kv_of which st = (case which of EscrowKV \<Rightarrow> escrow st | NullifiersKV \<Rightarrow> nullifiers st
                     | ProofCacheKV \<Rightarrow> proofCache st)"

definition kv_get :: "kv_store \<Rightarrow> string \<Rightarrow> kv_record option M" where
  "kv_get which key = bindM getStores (\<lambda>st. retE (map_of (kv_of which st) key))"

definition kv_put :: "kv_store \<Rightarrow> string \<Rightarrow> kv_record \<Rightarrow> unit M" where
  "kv_put which key v =
     bindM getStores (\<lambda>st s.
       (Inr (), s\<lparr>storesInstance := Some
          (case which of
             EscrowKV \<Rightarrow> st\<lparr>escrow := map_set (escrow st) key v\<rparr>
           | NullifiersKV \<Rightarrow> st\<lparr>nullifiers := map_set (nullifiers st) key v\<rparr>
           | ProofCacheKV \<Rightarrow> st\<lparr>proofCache := map_set (proofCache st) key v\<rparr>)\<rparr>))"

definition log_add :: "log_record \<Rightarrow> unit M" where
  "log_add r =
     bindM getStores (\<lambda>st s.
       (Inr (), s\<lparr>storesInstance := Some (st\<lparr>auditLog := auditLog st @ [r]\<rparr>)\<rparr>))"

text \<open>\<open>encrypt\<close> and \<open>decrypt\<close> of crypto/aes.ts; the key is the buffer the source decodes.\<close>

definition encrypt :: "world \<Rightarrow> prims \<Rightarrow> string \<Rightarrow> bytes \<Rightarrow> EncryptedPayload M" where
  "encrypt W P plaintext key =
     (if length key \<noteq> 32 then throwE (AesKeyLength (length key))
      else bindM (randomBytes W 12) (\<lambda>ivBytes.
        retE \<lparr>iv = to_hex ivBytes,
              ciphertext = fst (gcm_seal P key ivBytes plaintext),
              tag = snd (gcm_seal P key ivBytes plaintext),
              algorithm = ''aes-256-gcm''\<rparr>))"

definition decrypt :: "prims \<Rightarrow> EncryptedPayload \<Rightarrow> bytes \<Rightarrow> string M" where
  "decrypt P payload key =
     (if length key \<noteq> 32 then throwE (AesKeyLength (length key))
      else case gcm_open P key (iv payload) (ciphertext payload) (tag payload) of
             Inl m \<Rightarrow> throwE (CryptoThrow m)
           | Inr plaintext \<Rightarrow> retE plaintext)"

definition encryptedKVPut :: "world \<Rightarrow> prims \<Rightarrow> kv_store \<Rightarrow> string \<Rightarrow> string \<Rightarrow> json \<Rightarrow> unit M" where
  "encryptedKVPut W P store storeName key v =
     bindM (getStoreKey storeName) (\<lambda>storeKey.
     bindM (encrypt W P (JSON_stringify P v) storeKey) (\<lambda>payload.
       kv_put store key
         \<lparr>enc = ciphertext payload, kv_iv = iv payload, kv_tag = tag payload,
          alg = algorithm payload\<rparr>))"

definition decryptKVGet :: "prims \<Rightarrow> kv_record option \<Rightarrow> string \<Rightarrow> json option M" where
  "decryptKVGet P entry storeName =
     (case entry of
        None \<Rightarrow> retE None
      | Some r \<Rightarrow>
          if enc r = [] then retE None
          else
            bindM (getStoreKey storeName) (\<lambda>storeKey.
            bindM (decrypt P \<lparr>iv = kv_iv r, ciphertext = enc r, tag = kv_tag r,
                              algorithm = ''aes-256-gcm''\<rparr> storeKey) (\<lambda>plaintext.
              case JSON_parse P plaintext of
                Inl m \<Rightarrow> throwE (JsonSyntax m)
              | Inr j \<Rightarrow> retE (Some j))))"

section \<open>Stored values as JSON\<close>

text \<open>
  The objects the server writes, as \<open>JSON.stringify\<close> receives them (keys in the order of
  the source's literals), and the typed reading of a parsed value that the source's casts
  (\<open>as unknown as EscrowEntry\<close>) stand for.
\<close>

definition EncryptedPayload_to_json :: "EncryptedPayload \<Rightarrow> json" where
  "EncryptedPayload_to_json p =
     JObj [(''iv'', JStr (iv p)), (''ciphertext'', JStr (ciphertext p)),
           (''tag'', JStr (tag p)), (''algorithm'', JStr (algorithm p))]"

definition EncryptedPayload_of_json :: "json \<Rightarrow> EncryptedPayload option" where
  "EncryptedPayload_of_json j =
     (case (field j ''iv'', field j ''ciphertext'', field j ''tag'', field j ''algorithm'') of
        (Some (JStr i), Some (JStr c), Some (JStr t), Some (JStr a)) \<Rightarrow>
          Some \<lparr>iv = i, ciphertext = c, tag = t, algorithm = a\<rparr>
      | _ \<Rightarrow> None)"

definition EscrowEntry_to_json :: "EscrowEntry \<Rightarrow> json" where
  "EscrowEntry_to_json e =
     JObj [(''encryptedBlob'', EncryptedPayload_to_json (encryptedBlob e)),
           (''regulatorKeyId'', JStr (regulatorKeyId e)),
           (''credentialId'', JStr (credentialId e)),
           (''createdAt'', JNum (int (createdAt e))),
           (''expiresAt'', (case expiresAt e of None \<Rightarrow> JNull | Some t \<Rightarrow> JNum (int t))),
           (''invalidated'', JBool (invalidated e)),
           (''integrityHash'', JStr (integrityHash e))]"

definition expiresAt_of_json :: "json \<Rightarrow> nat option option" where
  "expiresAt_of_json j =
     (case j of
        JNull \<Rightarrow> Some None
      | JNum t \<Rightarrow> if 0 \<le> t then Some (Some (nat t)) else None
      | _ \<Rightarrow> None)"

definition EscrowEntry_of_json :: "json \<Rightarrow> EscrowEntry option" where
  "EscrowEntry_of_json j =
     (case (field j ''encryptedBlob'', field j ''regulatorKeyId'', field j ''credentialId'',
            field j ''createdAt'', field j ''expiresAt'', field j ''invalidated'',
            field j ''integrityHash'') of
        (Some b, Some (JStr r), Some (JStr c), Some (JNum t1), Some x, Some (JBool i),
         Some (JStr h)) \<Rightarrow>
          (case (EncryptedPayload_of_json b, expiresAt_of_json x) of
             (Some blob, Some t2) \<Rightarrow>
               if 0 \<le> t1
               then Some \<lparr>encryptedBlob = blob, regulatorKeyId = r, credentialId = c,
                          createdAt = nat t1, expiresAt = t2, invalidated = i,
                          integrityHash = h\<rparr>
               else None
           | _ \<Rightarrow> None)
      | _ \<Rightarrow> None)"

text \<open>
  The number that \<open>>\<close> and \<open>-\<close> see for the \<open>expiresAt\<close> of a parsed entry: \<open>null\<close>
  converts to 0.
\<close>

definition expiry_ms :: "EscrowEntry \<Rightarrow> nat" where
  "expiry_ms e = (case expiresAt e of None \<Rightarrow> 0 | Some t \<Rightarrow> t)"

definition NullifierEntry_to_json :: "NullifierEntry \<Rightarrow> json" where
  "NullifierEntry_to_json e =
     JObj [(''used'', JBool (used e)), (''credentialId'', JStr (ne_credentialId e)),
           (''appId'', JStr (appId e)), (''usedAt'', JNum (int (usedAt e)))]"

definition ProofCacheEntry_to_json :: "ProofCacheEntry \<Rightarrow> json" where
  "ProofCacheEntry_to_json e =
     JObj [(''valid'', JBool (pc_valid e)), (''verifiedAt'', JNum (int (verifiedAt e))),
           (''nullifier'', JStr (pc_nullifier e))]"

definition ProofCacheEntry_of_json :: "json \<Rightarrow> ProofCacheEntry option" where
  "ProofCacheEntry_of_json j =
     (case (field j ''valid'', field j ''verifiedAt'', field j ''nullifier'') of
        (Some (JBool v), Some (JNum t), Some (JStr n)) \<Rightarrow>
          if 0 \<le> t then Some \<lparr>pc_valid = v, verifiedAt = nat t, pc_nullifier = n\<rparr> else None
      | _ \<Rightarrow> None)"

fun action_name :: "action \<Rightarrow> string" where
  "action_name escrow_create = ''escrow_create''"
| "action_name escrow_access = ''escrow_access''"
| "action_name escrow_rotate = ''escrow_rotate''"
| "action_name escrow_purge = ''escrow_purge''"
| "action_name credential_issue = ''credential_issue''"
| "action_name credential_bind = ''credential_bind''"
| "action_name proof_verify = ''proof_verify''"
| "action_name nullifier_register = ''nullifier_register''"

definition AuditLogEntry_to_json :: "AuditLogEntry \<Rightarrow> json" where
  "AuditLogEntry_to_json e =
     JObj [(''action'', JStr (action_name (action e))), (''resourceId'', JStr (resourceId e)),
           (''actor'', JStr (actor e)), (''timestamp'', JNum (int (audit_timestamp e))),
           (''metadata'', JObj (map (\<lambda>(k, v). (k, JStr v)) (metadata e)))]"

section \<open>Audit log and escrow operations (db/stores.ts)\<close>

definition appendAuditLog :: "world \<Rightarrow> prims \<Rightarrow> AuditLogEntry \<Rightarrow> unit M" where
  "appendAuditLog W P entry =
     bindM getStores (\<lambda>stores.
     bindM (getStoreKey ''auditLog'') (\<lambda>storeKey.
     bindM (encrypt W P (JSON_stringify P (AuditLogEntry_to_json entry)) storeKey) (\<lambda>payload.
       log_add \<lparr>log_enc = ciphertext payload, log_iv = iv payload, log_tag = tag payload\<rparr>)))"

text \<open>
  \<open>RETENTION_POLICIES\<close> and \<open>getRetentionMs\<close>: years of 365.25 days, in milliseconds
  (\<open>365.25 * 24 * 60 * 60 * 1000 = 31557600000\<close>). The table is a plain object, so
  \<open>RETENTION_POLICIES[jurisdiction]\<close> also finds the members every object inherits from
  \<open>Object.prototype\<close>: a function or an object, which is not nullish, so the default is not
  taken and the product is \<open>NaN\<close> (\<open>None\<close>).
\<close>

definition RETENTION_POLICIES :: "(string \<times> nat) list" where
  "RETENTION_POLICIES = [(''US'', 5), (''EU'', 5), (''UK'', 5), (''DEFAULT'', 5)]"

definition Object_prototype_members :: "string list" where
  "Object_prototype_members =
     [''constructor'', ''__defineGetter__'', ''__defineSetter__'', ''hasOwnProperty'',
      ''__lookupGetter__'', ''__lookupSetter__'', ''isPrototypeOf'', ''propertyIsEnumerable'',
      ''toString'', ''valueOf'', ''__proto__'', ''toLocaleString'']"

definition getRetentionMs :: "string \<Rightarrow> nat option" where
  "getRetentionMs jurisdiction =
     (case map_of RETENTION_POLICIES jurisdiction of
        Some years \<Rightarrow> Some (years * 31557600000)
      | None \<Rightarrow>
          if jurisdiction \<in> set Object_prototype_members then None
          else Some (5 * 31557600000))"

definition putEscrowEntry ::
  "world \<Rightarrow> prims \<Rightarrow> string \<Rightarrow> json \<Rightarrow> bytes \<Rightarrow> string \<Rightarrow> string \<Rightarrow> string \<Rightarrow> unit M" where
  "putEscrowEntry W P escrowId rawPII regulatorKey regulatorKeyId' credentialId' jurisdiction =
     bindM getStores (\<lambda>stores.
     bindM (encrypt W P (JSON_stringify P rawPII) regulatorKey) (\<lambda>blob.
     bindM (Date_now W) (\<lambda>t1.
     bindM (Date_now W) (\<lambda>t2.
     bindM (encryptedKVPut W P EscrowKV ''escrow'' escrowId
              (EscrowEntry_to_json
                 \<lparr>encryptedBlob = blob, regulatorKeyId = regulatorKeyId',
                  credentialId = credentialId', createdAt = t1,
                  expiresAt = map_option (\<lambda>r. t2 + r) (getRetentionMs jurisdiction),
                  invalidated = False,
                  integrityHash = sha256_hex P (JSON_stringify P rawPII)\<rparr>)) (\<lambda>u.
     bindM (Date_now W) (\<lambda>t3.
       appendAuditLog W P
         \<lparr>action = escrow_create, resourceId = escrowId, actor = ''system'',
          audit_timestamp = t3,
          metadata = [(''regulatorKeyId'', regulatorKeyId'), (''jurisdiction'', jurisdiction),
                      (''credentialId'', credentialId')]\<rparr>))))))"

text \<open>
  The first lines of \<open>getEscrowEntry\<close> and \<open>rotateEscrowEntry\<close>: read the key, decrypt
  with the store key, parse, and cast. \<open>None\<close> is the falsy result that the source tests
  with \<open>!entry\<close>.
\<close>

definition read_escrow :: "prims \<Rightarrow> kv_record option \<Rightarrow> EscrowEntry option M" where
  "read_escrow P raw =
     bindM (decryptKVGet P raw ''escrow'') (\<lambda>r.
       case r of
         None \<Rightarrow> retE None
       | Some j \<Rightarrow>
           if \<not> truthy j then retE None
           else (case EscrowEntry_of_json j of
                   None \<Rightarrow> throwE MalformedValue
                 | Some entry \<Rightarrow> retE (Some entry)))"

definition getEscrowEntry :: "world \<Rightarrow> prims \<Rightarrow> string \<Rightarrow> bytes \<Rightarrow> string \<Rightarrow> json M" where
  "getEscrowEntry W P escrowId regulatorKey actorId =
     bindM getStores (\<lambda>stores.
     bindM (kv_get EscrowKV escrowId) (\<lambda>raw.
     bindM (read_escrow P raw) (\<lambda>r.
       case r of
         None \<Rightarrow> throwE (EscrowNotFound escrowId)
       | Some entry \<Rightarrow>
           if invalidated entry then throwE (EscrowInvalidated escrowId)
           else
             bindM (Date_now W) (\<lambda>now.
               if now > expiry_ms entry then throwE (EscrowExpired escrowId)
               else
                 bindM (Date_now W) (\<lambda>t.
                 bindM (appendAuditLog W P
                          \<lparr>action = escrow_access, resourceId = escrowId, actor = actorId,
                           audit_timestamp = t,
                           metadata = [(''regulatorKeyId'', regulatorKeyId entry)]\<rparr>) (\<lambda>u.
                 bindM (decrypt P (encryptedBlob entry) regulatorKey) (\<lambda>plaintext.
                   if sha256_hex P plaintext \<noteq> integrityHash entry then throwE EscrowIntegrity
                   else (case JSON_parse P plaintext of
                           Inl m \<Rightarrow> throwE (JsonSyntax m)
                         | Inr j \<Rightarrow> retE j))))))))"

text \<open>
  \<open>rotateEscrowEntry\<close> returns \<open>{success, reason}\<close>. \<open>entry.expiresAt - Date.now()\<close> is a
  subtraction of JavaScript numbers. The shredded blob encrypts the hexadecimal text of
  256 random bytes under a key of 32 random bytes that is then dropped.
\<close>

definition rotateEscrowEntry :: "world \<Rightarrow> prims \<Rightarrow> string \<Rightarrow> string \<Rightarrow> bool \<Rightarrow> (bool \<times> string) M" where
  "rotateEscrowEntry W P escrowId actorId forceErasure =
     bindM getStores (\<lambda>stores.
     bindM (kv_get EscrowKV escrowId) (\<lambda>raw.
     bindM (read_escrow P raw) (\<lambda>r.
       case r of
         None \<Rightarrow> retE (False, ''Entry not found'')
       | Some entry \<Rightarrow>
           bindM (Date_now W) (\<lambda>now.
             if int (expiry_ms entry) - int now > 0 \<and> \<not> forceErasure
             then
               bindM (Date_now W) (\<lambda>t.
               bindM (appendAuditLog W P
                        \<lparr>action = escrow_rotate, resourceId = escrowId, actor = actorId,
                         audit_timestamp = t,
                         metadata = [(''result'', ''deferred''),
                                     (''reason'', ''retention_period_active''),
                                     (''expiresAt'', toISOString P (expiry_ms entry))]\<rparr>) (\<lambda>u.
                 retE (False, ''Retention period active until '' @ toISOString P (expiry_ms entry)
                   @ ''. Erasure request logged and will execute after expiry.'')))
             else
               bindM (randomBytes W 256) (\<lambda>junk.
               bindM (randomBytes W 32) (\<lambda>junkKey.
               bindM (encrypt W P (to_hex junk) junkKey) (\<lambda>blob.
               bindM (encryptedKVPut W P EscrowKV ''escrow'' escrowId
                        (EscrowEntry_to_json
                           (entry\<lparr>encryptedBlob := blob, invalidated := True,
                                  integrityHash := ''INVALIDATED''\<rparr>))) (\<lambda>u.
               bindM (Date_now W) (\<lambda>t.
               bindM (appendAuditLog W P
                        \<lparr>action = escrow_rotate, resourceId = escrowId, actor = actorId,
                         audit_timestamp = t, metadata = [(''result'', ''completed'')]\<rparr>) (\<lambda>u'.
                 retE (True, ''Entry crypto-shredded and invalidated'')))))))))))"

text \<open>
  The loop of \<open>purgeExpiredEscrow\<close> over the pairs of \<open>stores.escrow.all\<close>, with the count
  so far. The result of \<open>rotateEscrowEntry\<close> is dropped; an error it throws ends the loop.
  The loop runs only when \<open>all\<close> is an async iterable; otherwise nothing is purged.
\<close>

fun purge_loop ::
  "world \<Rightarrow> prims \<Rightarrow> nat \<Rightarrow> (string \<times> kv_record) list \<Rightarrow> nat \<Rightarrow> server \<Rightarrow> (err + nat) \<times> server" where
  "purge_loop W P now [] purged s = (Inr purged, s)"
| "purge_loop W P now ((key, rawVal) # rest) purged s =
     (case read_escrow P (Some rawVal) s of
        (Inl e, s') \<Rightarrow> (Inl e, s')
      | (Inr None, s') \<Rightarrow> purge_loop W P now rest purged s'
      | (Inr (Some entry), s') \<Rightarrow>
          if now > expiry_ms entry \<and> \<not> invalidated entry
          then (case rotateEscrowEntry W P key ''system/purge'' True s' of
                  (Inl e, s'') \<Rightarrow> (Inl e, s'')
                | (Inr res, s'') \<Rightarrow> purge_loop W P now rest (purged + 1) s'')
          else purge_loop W P now rest purged s')"

definition purgeExpiredEscrow :: "world \<Rightarrow> prims \<Rightarrow> nat M" where
  "purgeExpiredEscrow W P =
     bindM getStores (\<lambda>stores.
     bindM (Date_now W) (\<lambda>now.
       if all_async_iterable W then purge_loop W P now (escrow stores) 0 else retE 0))"

section \<open>\<open>escrowExists\<close> (issuer/escrow.ts)\<close>

text \<open>
  The probe draws a random key, calls \<open>getEscrowEntry\<close> as actor \<open>existence_check\<close> and
  reads the message of whatever is thrown.
\<close>

definition escrowExists :: "world \<Rightarrow> prims \<Rightarrow> string \<Rightarrow> server \<Rightarrow> bool \<times> server" where
  "escrowExists W P escrowId s =
     (case bindM (randomBytes W 32) (\<lambda>regulatorKey.
              getEscrowEntry W P escrowId regulatorKey ''existence_check'') s of
        (Inr pii, s') \<Rightarrow> (True, s')
      | (Inl e, s') \<Rightarrow> (\<not> str_includes (message e) ''not found'', s'))"

section \<open>Nullifiers and the proof cache (db/stores.ts, verifier/cache.ts, verifier/verify.ts)\<close>

definition registerNullifier :: "world \<Rightarrow> prims \<Rightarrow> string \<Rightarrow> string \<Rightarrow> string \<Rightarrow> unit M" where
  "registerNullifier W P nullifier credentialId' appId' =
     bindM getStores (\<lambda>stores.
     bindM (Date_now W) (\<lambda>t.
     bindM (encryptedKVPut W P NullifiersKV ''nullifiers'' nullifier
              (NullifierEntry_to_json
                 \<lparr>used = True, ne_credentialId = credentialId', appId = appId', usedAt = t\<rparr>)) (\<lambda>u.
     bindM (Date_now W) (\<lambda>t'.
       appendAuditLog W P
         \<lparr>action = nullifier_register, resourceId = nullifier, actor = ''system'',
          audit_timestamp = t', metadata = [(''appId'', appId')]\<rparr>))))"

text \<open>\<open>entry?.used ?? false\<close>, as the truth value the route tests.\<close>

definition isNullifierUsed :: "prims \<Rightarrow> string \<Rightarrow> bool M" where
  "isNullifierUsed P nullifier =
     bindM getStores (\<lambda>stores.
     bindM (kv_get NullifiersKV nullifier) (\<lambda>raw.
       case raw of
         None \<Rightarrow> retE False
       | Some r \<Rightarrow>
           bindM (decryptKVGet P raw ''nullifiers'') (\<lambda>entry.
             case entry of
               None \<Rightarrow> retE False
             | Some j \<Rightarrow> (case field j ''used'' of None \<Rightarrow> retE False
                                                   | Some u \<Rightarrow> retE (truthy u)))))"

definition cacheProofResult :: "world \<Rightarrow> prims \<Rightarrow> string \<Rightarrow> bool \<Rightarrow> string \<Rightarrow> unit M" where
  "cacheProofResult W P proofHash v nullifier =
     bindM getStores (\<lambda>stores.
     bindM (Date_now W) (\<lambda>t.
       encryptedKVPut W P ProofCacheKV ''proofCache'' proofHash
         (ProofCacheEntry_to_json \<lparr>pc_valid = v, verifiedAt = t, pc_nullifier = nullifier\<rparr>)))"

definition getCachedProofResult :: "prims \<Rightarrow> string \<Rightarrow> ProofCacheEntry option M" where
  "getCachedProofResult P proofHash =
     bindM getStores (\<lambda>stores.
     bindM (kv_get ProofCacheKV proofHash) (\<lambda>raw.
     bindM (decryptKVGet P raw ''proofCache'') (\<lambda>r.
       case r of
         None \<Rightarrow> retE None
       | Some j \<Rightarrow>
           if \<not> truthy j then retE None
           else (case ProofCacheEntry_of_json j of
                   None \<Rightarrow> throwE MalformedValue
                 | Some entry \<Rightarrow> retE (Some entry)))))"

text \<open>
  The module's \<open>memoryCache\<close>: \<open>get\<close> reads the clock only when the key is present, \<open>set\<close>
  always does.
\<close>

definition memoryCache_get :: "world \<Rightarrow> string \<Rightarrow> server \<Rightarrow> MemoryCacheEntry option \<times> server" where
  "memoryCache_get W key s =
     (case map_of (cache (memoryCache s)) key of
        None \<Rightarrow> (None, s)
      | Some e \<Rightarrow>
          (fst (lru_get (memoryCache s) key (clock W (ticks s))),
           s\<lparr>memoryCache := snd (lru_get (memoryCache s) key (clock W (ticks s))),
             ticks := Suc (ticks s)\<rparr>))"

definition memoryCache_set :: "world \<Rightarrow> string \<Rightarrow> bool \<Rightarrow> string \<Rightarrow> server \<Rightarrow> server" where
  "memoryCache_set W key v nullifier s =
     s\<lparr>memoryCache := lru_set (memoryCache s) key v nullifier (clock W (ticks s)),
       ticks := Suc (ticks s)\<rparr>"

definition hashProof :: "prims \<Rightarrow> json \<Rightarrow> string list \<Rightarrow> string" where
  "hashProof P prf sigs =
     sha256_hex P (JSON_stringify P
       (JObj [(''proof'', prf), (''publicSignals'', JArr (map JStr sigs))]))"

text \<open>
  \<open>getCached\<close> returns \<open>{valid, nullifier, cached: true}\<close> (here the pair) or \<open>null\<close>; an
  error of the persistent layer is swallowed. \<open>setCached\<close> swallows it as well.
\<close>

definition getCached :: "world \<Rightarrow> prims \<Rightarrow> string \<Rightarrow> server \<Rightarrow> (bool \<times> string) option \<times> server" where
  "getCached W P proofHash s =
     (case memoryCache_get W proofHash s of
        (Some mem, s1) \<Rightarrow> (Some (mc_valid mem, mc_nullifier mem), s1)
      | (None, s1) \<Rightarrow>
          (case getCachedProofResult P proofHash s1 of
             (Inr (Some entry), s2) \<Rightarrow>
               (Some (pc_valid entry, pc_nullifier entry),
                memoryCache_set W proofHash (pc_valid entry) (pc_nullifier entry) s2)
           | (Inr None, s2) \<Rightarrow> (None, s2)
           | (Inl e, s2) \<Rightarrow> (None, s2)))"

definition setCached :: "world \<Rightarrow> prims \<Rightarrow> string \<Rightarrow> bool \<Rightarrow> string \<Rightarrow> server \<Rightarrow> server" where
  "setCached W P proofHash v nullifier s =
     snd (cacheProofResult W P proofHash v nullifier (memoryCache_set W proofHash v nullifier s))"

text \<open>
  \<open>verifyProof\<close>: the verification key file (\<open>None\<close> when it does not exist) is parsed and
  handed to \<open>snarkjs.groth16.verify\<close>.
\<close>

definition verifyProof ::
  "prims \<Rightarrow> (json \<Rightarrow> string list \<Rightarrow> json \<Rightarrow> thrown + bool) \<Rightarrow> json \<Rightarrow> string list \<Rightarrow> string option
     \<Rightarrow> err + bool" where
  "verifyProof P groth16 prf sigs vkeyFile =
     (case vkeyFile of
        None \<Rightarrow> Inl VkeyNotFound
      | Some text \<Rightarrow>
          (case JSON_parse P text of
             Inl m \<Rightarrow> Inl (JsonSyntax m)
           | Inr vkey \<Rightarrow>
               (case groth16 vkey sigs prf of
                  Inl t \<Rightarrow> Inl (VerifierThrow t)
                | Inr b \<Rightarrow> Inr b)))"

section \<open>The route \<open>POST /proof/verify\<close> (api/routes/proof.ts)\<close>

text \<open>\<open>publicSignals[i] ?? '0'\<close>.\<close>

definition signal_or_zero :: "string list \<Rightarrow> nat \<Rightarrow> string" where
  "signal_or_zero sigs i = (if i < length sigs then sigs ! i else ''0'')"

definition proofVerifyRequestSchema :: "string list \<Rightarrow> bool" where
  "proofVerifyRequestSchema sigs = (1 \<le> length sigs \<and> length sigs \<le> 50)"

text \<open>
  The answers of the route: 200 with \<open>{valid, nullifier, cached}\<close>, 409 with
  \<open>{valid: false, nullifier, error}\<close>, 500, and the 400 of \<open>validateBody\<close>.
\<close>

datatype proof_response =
    Ok200 bool string bool
  | Conflict409 string
  | Error500
  | BadRequest400

definition proof_route ::
  "world \<Rightarrow> prims \<Rightarrow> (json \<Rightarrow> string list \<Rightarrow> json \<Rightarrow> thrown + bool) \<Rightarrow> string option
     \<Rightarrow> json \<Rightarrow> string list \<Rightarrow> server \<Rightarrow> proof_response \<times> server" where
  "proof_route W P groth16 vkeyFile prf sigs s =
     (if \<not> proofVerifyRequestSchema sigs then (BadRequest400, s)
      else
        case getCached W P (hashProof P prf sigs) s of
          (Some c, s1) \<Rightarrow> (Ok200 (fst c) (snd c) True, s1)
        | (None, s1) \<Rightarrow>
            (case verifyProof P groth16 prf sigs vkeyFile of
               Inl e \<Rightarrow> (Error500, s1)
             | Inr v \<Rightarrow>
                 if v then
                   (case isNullifierUsed P (signal_or_zero sigs 5) s1 of
                      (Inl e, s2) \<Rightarrow> (Error500, s2)
                    | (Inr True, s2) \<Rightarrow> (Conflict409 (signal_or_zero sigs 5), s2)
                    | (Inr False, s2) \<Rightarrow>
                        (case registerNullifier W P (signal_or_zero sigs 5) ''unknown''
                                (signal_or_zero sigs 4) s2 of
                           (Inl e, s3) \<Rightarrow> (Error500, s3)
                         | (Inr u, s3) \<Rightarrow>
                             (Ok200 v (signal_or_zero sigs 5) False,
                              setCached W P (hashProof P prf sigs) v (signal_or_zero sigs 5) s3)))
                 else
                   (Ok200 v (signal_or_zero sigs 5) False,
                    setCached W P (hashProof P prf sigs) v (signal_or_zero sigs 5) s1)))"

section \<open>A platform for concrete runs\<close>

text \<open>
  To run the model on concrete inputs the primitives need values. \<open>demo_prims\<close> is a
  platform that meets the contracts the theorems ask of the real one: its cipher leaves
  the text as it is and tags it with the key, so only the same key opens it; its hash is
  the identity; its JSON printer is an injective numbering of the values.
\<close>

instance json :: countable
  by countable_datatype

definition demo_stringify :: "json \<Rightarrow> string" where
  "demo_stringify j = replicate (Suc (to_nat j)) CHR ''j''"

definition demo_parse :: "string \<Rightarrow> string + json" where
  "demo_parse s =
     (if s = [] then Inl ''Unexpected end of JSON input'' else Inr (from_nat (length s - 1)))"

definition demo_seal :: "bytes \<Rightarrow> bytes \<Rightarrow> string \<Rightarrow> string \<times> string" where
  "demo_seal key ivBytes plaintext = (plaintext, to_hex key)"

definition demo_open :: "bytes \<Rightarrow> string \<Rightarrow> string \<Rightarrow> string \<Rightarrow> string + string" where
  "demo_open key ivHex ct tg =
     (if tg = to_hex key then Inr ct
      else Inl ''Unsupported state or unable to authenticate data'')"

definition demo_prims :: prims where
  "demo_prims = \<lparr>gcm_seal = demo_seal, gcm_open = demo_open, sha256_hex = (\<lambda>s. s),
                  JSON_stringify = demo_stringify, JSON_parse = demo_parse,
                  toISOString = show_nat\<rparr>"

definition demo_world :: world where
  "demo_world = \<lparr>clock = (\<lambda>t. 1000 + t), random_byte = (\<lambda>t i. 0), all_async_iterable = True\<rparr>"

definition demo_key :: "8 word \<Rightarrow> bytes" where
  "demo_key b = replicate 32 b"

text \<open>A server with opened, empty stores and store keys for every store.\<close>

definition demo_server :: server where
  "demo_server =
     \<lparr>storesInstance = Some \<lparr>escrow = [], nullifiers = [], proofCache = [], auditLog = []\<rparr>,
      storeKeys = (\<lambda>n. if n \<in> {''escrow'', ''credentials'', ''nullifiers'', ''proofCache'',
                                 ''auditLog''}
                        then Some (demo_key 7) else None),
      memoryCache = \<lparr>cache = [], maxSize = 10000, ttlMs = 3600000\<rparr>,
      ticks = 0\<rparr>"

section \<open>What the wrappers write\<close>

text \<open>
  The record \<open>appendAuditLog\<close> adds for an entry, and the value \<open>encryptedKVPut\<close> writes
  for a JSON value, when the store key is \<open>k\<close> and the IV is drawn at read \<open>t\<close>.
\<close>

definition sealed_log :: "world \<Rightarrow> prims \<Rightarrow> bytes \<Rightarrow> nat \<Rightarrow> AuditLogEntry \<Rightarrow> log_record" where
  "sealed_log W P k t entry =
     \<lparr>log_enc = fst (gcm_seal P k (map (random_byte W t) [0..<12])
                   (JSON_stringify P (AuditLogEntry_to_json entry))),
      log_iv = to_hex (map (random_byte W t) [0..<12]),
      log_tag = snd (gcm_seal P k (map (random_byte W t) [0..<12])
                   (JSON_stringify P (AuditLogEntry_to_json entry)))\<rparr>"

definition sealed_kv :: "world \<Rightarrow> prims \<Rightarrow> bytes \<Rightarrow> nat \<Rightarrow> json \<Rightarrow> kv_record" where
  "sealed_kv W P k t v =
     \<lparr>enc = fst (gcm_seal P k (map (random_byte W t) [0..<12]) (JSON_stringify P v)),
      kv_iv = to_hex (map (random_byte W t) [0..<12]),
      kv_tag = snd (gcm_seal P k (map (random_byte W t) [0..<12]) (JSON_stringify P v)),
      alg = ''aes-256-gcm''\<rparr>"

text \<open>
  The entry \<open>putEscrowEntry\<close> builds when it starts in state \<open>s\<close>: the IV of the blob is
  drawn at read \<open>ticks s\<close>, \<open>createdAt\<close> and \<open>expiresAt\<close> are the two clock reads after it.
\<close>

definition put_entry ::
  "world \<Rightarrow> prims \<Rightarrow> server \<Rightarrow> json \<Rightarrow> bytes \<Rightarrow> string \<Rightarrow> string \<Rightarrow> string \<Rightarrow> EscrowEntry" where
  "put_entry W P s rawPII regulatorKey regulatorKeyId' credentialId' jurisdiction =
     \<lparr>encryptedBlob =
        \<lparr>iv = to_hex (map (random_byte W (ticks s)) [0..<12]),
         ciphertext = fst (gcm_seal P regulatorKey (map (random_byte W (ticks s)) [0..<12])
                             (JSON_stringify P rawPII)),
         tag = snd (gcm_seal P regulatorKey (map (random_byte W (ticks s)) [0..<12])
                      (JSON_stringify P rawPII)),
         algorithm = ''aes-256-gcm''\<rparr>,
      regulatorKeyId = regulatorKeyId', credentialId = credentialId',
      createdAt = clock W (ticks s + 1),
      expiresAt = map_option (\<lambda>r. clock W (ticks s + 2) + r) (getRetentionMs jurisdiction),
      invalidated = False,
      integrityHash = sha256_hex P (JSON_stringify P rawPII)\<rparr>"

text \<open>
  The contracts of the platform that the round trip rests on. AES-GCM: what was sealed
  under a 32-byte key with a 12-byte IV opens under the same key, and the ciphertext of a
  non-empty text is not empty. JSON: a value is representable when parsing its text gives
  it back; the text of a value is never empty.
\<close>

definition gcm_correct :: "prims \<Rightarrow> bool" where
  "gcm_correct P \<longleftrightarrow>
     (\<forall>key ivBytes p. length key = 32 \<and> length ivBytes = 12 \<longrightarrow>
        gcm_open P key (to_hex ivBytes) (fst (gcm_seal P key ivBytes p))
          (snd (gcm_seal P key ivBytes p)) = Inr p
        \<and> (p \<noteq> [] \<longrightarrow> fst (gcm_seal P key ivBytes p) \<noteq> []))"

definition json_roundtrip :: "prims \<Rightarrow> json \<Rightarrow> bool" where
  "json_roundtrip P j \<longleftrightarrow> JSON_parse P (JSON_stringify P j) = Inr j \<and> JSON_stringify P j \<noteq> []"

text \<open>A PII record, and the demo server after one \<open>putEscrowEntry\<close> under the key \<open>demo_key 1\<close>.\<close>

definition demo_pii :: json where
  "demo_pii = JObj [(''fullName'', JStr ''Alice Ng''), (''dateOfBirth'', JStr ''1990-01-15''),
                    (''countryCode'', JNum 840)]"

definition demo_after_put :: server where
  "demo_after_put =
     snd (putEscrowEntry demo_world demo_prims ''01ESCROW'' demo_pii (demo_key 1) ''default''
            ''cred-1'' ''US'' demo_server)"

definition demo_entry :: EscrowEntry where
  "demo_entry =
     put_entry demo_world demo_prims demo_server demo_pii (demo_key 1) ''default'' ''cred-1'' ''US''"

text \<open>A verifier that accepts every proof, and two requests that carry the same nullifier.\<close>

definition groth16_accept :: "json \<Rightarrow> string list \<Rightarrow> json \<Rightarrow> thrown + bool" where
  "groth16_accept vkey sigs prf = Inr True"

definition demo_signals :: "string list" where
  "demo_signals = [''11'', ''22'', ''18'', ''408'', ''7'', ''555'', ''99'']"

definition demo_vkey_file :: "string option" where
  "demo_vkey_file = Some (demo_stringify (JObj [(''protocol'', JStr ''groth16'')]))"

definition demo_after_register :: server where
  "demo_after_register = snd (registerNullifier demo_world demo_prims ''555'' ''unknown'' ''7'' demo_server)"

section \<open>Credential issuance (issuer/credential.ts, issuer/poseidon.ts, crypto/eddsa.ts, crypto/keys.ts)\<close>

text \<open>
  The Poseidon hash and the EdDSA scheme come from circomlibjs, which is not part of the
  repository: they are the fields of \<open>circomlib\<close>. \<open>poseidon\<close> takes the inputs as
  integers (the wrapper maps them into the field with \<open>F.e\<close>) and returns the digest as an
  integer; a signature is the pair of the point \<open>R8\<close> and the scalar \<open>S\<close>.
\<close>

record circomlib =
  poseidon :: "int list \<Rightarrow> int"
  prv2pub :: "bytes \<Rightarrow> int \<times> int"
  signPoseidon :: "bytes \<Rightarrow> int \<Rightarrow> (int \<times> int) \<times> int"
  verifyPoseidon :: "int \<Rightarrow> (int \<times> int) \<times> int \<Rightarrow> int \<times> int \<Rightarrow> bool"

text \<open>
  \<open>Buffer.from(s, 'hex')\<close>: pairs of hexadecimal digits, up to the first pair that is not
  one.
\<close>

definition hex_val :: "char \<Rightarrow> nat option" where
  "hex_val c =
     (case map_of (zip ''0123456789abcdef'' [0..<16]) c of
        Some n \<Rightarrow> Some n
      | None \<Rightarrow> map_of (zip ''ABCDEF'' [10..<16]) c)"

fun from_hex :: "string \<Rightarrow> bytes" where
  "from_hex (a # b # rest) =
     (case (hex_val a, hex_val b) of
        (Some x, Some y) \<Rightarrow> word_of_nat (16 * x + y) # from_hex rest
      | _ \<Rightarrow> [])"
| "from_hex _ = []"

text \<open>\<open>BigInt('0x' + bytes.toString('hex'))\<close>: the bytes as a big-endian number.\<close>

definition bytes_to_int :: "bytes \<Rightarrow> int" where
  "bytes_to_int bs = foldl (\<lambda>acc b. acc * 256 + uint b) 0 bs"

record EdDSAKeyPair =
  privateKey :: string
  publicKey :: "int \<times> int"

record EdDSASignature =
  R8 :: "int \<times> int"
  sigS :: int

text \<open>\<open>generateKeyPair\<close> with the 32 bytes that \<open>crypto.randomBytes\<close> returned.\<close>

definition generateKeyPair :: "circomlib \<Rightarrow> bytes \<Rightarrow> EdDSAKeyPair" where
  "generateKeyPair L privateKeyBuf =
     \<lparr>privateKey = to_hex privateKeyBuf, publicKey = prv2pub L privateKeyBuf\<rparr>"

definition sign :: "circomlib \<Rightarrow> string \<Rightarrow> int \<Rightarrow> EdDSASignature" where
  "sign L privateKeyHex msg =
     \<lparr>R8 = fst (signPoseidon L (from_hex privateKeyHex) msg),
      sigS = snd (signPoseidon L (from_hex privateKeyHex) msg)\<rparr>"

definition verify :: "circomlib \<Rightarrow> int \<times> int \<Rightarrow> int \<Rightarrow> EdDSASignature \<Rightarrow> bool" where
  "verify L pubKey msg sg = verifyPoseidon L msg (R8 sg, sigS sg) pubKey"

definition poseidonHash :: "circomlib \<Rightarrow> int list \<Rightarrow> int" where
  "poseidonHash L inputs = poseidon L inputs"

definition hashCredential :: "circomlib \<Rightarrow> int \<Rightarrow> int \<Rightarrow> int \<Rightarrow> int" where
  "hashCredential L age country secret = poseidonHash L [age, country, secret]"

text \<open>
  The state of crypto/keys.ts: the cached pair, the content of \<open>issuer.json\<close> when the
  file exists, and the environment variable.
\<close>

record key_store =
  issuerKeyPair :: "EdDSAKeyPair option"
  issuerFile :: "EdDSAKeyPair option"
  ZEROID_ISSUER_PRIVATE_KEY :: "string option"

text \<open>
  \<open>getIssuerKeyPair\<close>, given the bytes a call of \<open>generateKeyPair\<close> would draw. An empty
  environment variable is falsy. The branch for the environment variable keeps the public
  key of the pair it generated and replaces the private key.
\<close>

definition getIssuerKeyPair :: "circomlib \<Rightarrow> bytes \<Rightarrow> key_store \<Rightarrow> EdDSAKeyPair \<times> key_store" where
  "getIssuerKeyPair L rnd ks =
     (case issuerKeyPair ks of
        Some kp \<Rightarrow> (kp, ks)
      | None \<Rightarrow>
          (case issuerFile ks of
             Some kp \<Rightarrow> (kp, ks\<lparr>issuerKeyPair := Some kp\<rparr>)
           | None \<Rightarrow>
               (case (case ZEROID_ISSUER_PRIVATE_KEY ks of
                        None \<Rightarrow> None
                      | Some envKey \<Rightarrow> if envKey = [] then None else Some envKey) of
                  Some envKey \<Rightarrow>
                    ((generateKeyPair L rnd)\<lparr>privateKey := envKey\<rparr>,
                     ks\<lparr>issuerKeyPair := Some ((generateKeyPair L rnd)\<lparr>privateKey := envKey\<rparr>)\<rparr>)
                | None \<Rightarrow>
                    (generateKeyPair L rnd,
                     ks\<lparr>issuerKeyPair := Some (generateKeyPair L rnd),
                        issuerFile := Some (generateKeyPair L rnd)\<rparr>))))"

text \<open>
  What \<open>getFullYear\<close>, \<open>getMonth\<close> (0 to 11) and \<open>getDate\<close> return for a \<open>Date\<close>.
\<close>

record local_date =
  fullYear :: int
  monthIx :: int
  dayOfMonth :: int

record KycResult =
  passed :: bool
  fullName :: string
  dateOfBirth :: string
  countryCode :: int
  documentType :: string
  documentNumber :: string
  providerRef :: "string option"
  verifiedAt :: nat

text \<open>
  The credential. The field elements, which the source prints as decimal strings, are
  kept as the numbers.
\<close>

record SignedCredential =
  credId :: string
  credentialHash :: int
  signatureR8 :: "int \<times> int"
  signatureS :: int
  issuerPubKey :: "int \<times> int"
  userSecret :: int
  boundAddress :: "string option"
  level :: int
  issuedAt :: nat
  credExpiresAt :: nat

text \<open>
  What the platform hands to one call of \<open>issueCredential\<close>: the \<open>Date\<close> parser (\<open>None\<close> for
  an invalid date), the current date and time, the 31 random bytes of the secret, the UUID
  and the 32 bytes a key generation would draw.
\<close>

record issue_env =
  parseDate :: "string \<Rightarrow> local_date option"
  today :: local_date
  now_ts :: nat
  secretBytes :: bytes
  uuid :: string
  keyBytes :: bytes

definition CREDENTIAL_TTL_MS :: nat where
  "CREDENTIAL_TTL_MS = 365 * 24 * 60 * 60 * 1000"

text \<open>The age computation of \<open>issueCredential\<close>.\<close>

definition compute_age :: "local_date \<Rightarrow> local_date \<Rightarrow> int" where
  "compute_age now dob =
     (if monthIx now - monthIx dob < 0
         \<or> (monthIx now - monthIx dob = 0 \<and> dayOfMonth now < dayOfMonth dob)
      then fullYear now - fullYear dob - 1
      else fullYear now - fullYear dob)"

datatype issue_error = RangeError

text \<open>
  \<open>issueCredential\<close>. For an invalid date every getter is \<open>NaN\<close>, so is the age, and
  \<open>BigInt(age)\<close> throws a \<open>RangeError\<close>.
\<close>

definition issueCredential ::
  "circomlib \<Rightarrow> issue_env \<Rightarrow> key_store \<Rightarrow> KycResult \<Rightarrow> string option \<Rightarrow> int option
     \<Rightarrow> (issue_error + SignedCredential) \<times> key_store" where
  "issueCredential L E ks kycResult boundAddress' level' =
     (let keyPair = fst (getIssuerKeyPair L (keyBytes E) ks);
          ks' = snd (getIssuerKeyPair L (keyBytes E) ks);
          secret = bytes_to_int (secretBytes E)
      in case parseDate E (dateOfBirth kycResult) of
           None \<Rightarrow> (Inl RangeError, ks')
         | Some dob \<Rightarrow>
             (let age = compute_age (today E) dob;
                  credHash = hashCredential L age (countryCode kycResult) secret;
                  signature = sign L (privateKey keyPair) credHash;
                  resolvedLevel =
                    (case level' of
                       Some l \<Rightarrow> l
                     | None \<Rightarrow> if countryCode kycResult \<noteq> 0 \<and> age \<noteq> 0 then 3
                               else if age \<noteq> 0 then 1 else 0)
              in (Inr \<lparr>credId = uuid E, credentialHash = credHash,
                        signatureR8 = R8 signature, signatureS = sigS signature,
                        issuerPubKey = publicKey keyPair, userSecret = secret,
                        boundAddress = boundAddress', level = resolvedLevel,
                        issuedAt = now_ts E, credExpiresAt = now_ts E + CREDENTIAL_TTL_MS\<rparr>,
                  ks')))"

text \<open>The check of the claim: \<open>verify(issuerPubKey, credentialHash, {R8, S})\<close> on a credential.\<close>

definition credential_verifies :: "circomlib \<Rightarrow> SignedCredential \<Rightarrow> bool" where
  "credential_verifies L cred =
     verify L (issuerPubKey cred) (credentialHash cred)
       \<lparr>R8 = signatureR8 cred, sigS = signatureS cred\<rparr>"

text \<open>
  A library for concrete runs: a signature names the public key of its signer, so it
  verifies under that key and no other.
\<close>

definition demo_lib :: circomlib where
  "demo_lib =
     \<lparr>poseidon = (\<lambda>xs. foldl (\<lambda>h x. (31 * h + x) mod 1000003) 7 xs),
      prv2pub = (\<lambda>k. (bytes_to_int k, 1)),
      signPoseidon = (\<lambda>k m. ((bytes_to_int k, 1), m)),
      verifyPoseidon = (\<lambda>m sg pub. fst sg = pub \<and> snd sg = m)\<rparr>"

definition demo_kyc :: "string \<Rightarrow> KycResult" where
  "demo_kyc dob =
     \<lparr>passed = True, fullName = ''Alice Ng'', dateOfBirth = dob, countryCode = 840,
      documentType = ''passport'', documentNumber = ''X123'', providerRef = Some ''mock_1'',
      verifiedAt = 1000\<rparr>"

text \<open>
  A parser for the dates of the runs, the 3rd of November 2026 as the current date, and a
  key store with the environment variable set and no key file.
\<close>

definition demo_parseDate :: "string \<Rightarrow> local_date option" where
  "demo_parseDate s =
     (if s = ''1990-01-15'' then Some \<lparr>fullYear = 1990, monthIx = 0, dayOfMonth = 15\<rparr>
      else if s = ''1700-01-01'' then Some \<lparr>fullYear = 1700, monthIx = 0, dayOfMonth = 1\<rparr>
      else if s = ''2999-12-31'' then Some \<lparr>fullYear = 2999, monthIx = 11, dayOfMonth = 31\<rparr>
      else None)"

definition demo_env :: issue_env where
  "demo_env =
     \<lparr>parseDate = demo_parseDate,
      today = \<lparr>fullYear = 2026, monthIx = 10, dayOfMonth = 3\<rparr>,
      now_ts = 1793700000000,
      secretBytes = replicate 31 1,
      uuid = ''6f1c0c1e-0000-4000-8000-000000000001'',
      keyBytes = demo_key 9\<rparr>"

definition demo_keys_env :: key_store where
  "demo_keys_env = \<lparr>issuerKeyPair = None, issuerFile = None, ZEROID_ISSUER_PRIVATE_KEY = Some (to_hex (demo_key 10))\<rparr>"

definition demo_keys_fresh :: key_store where
  "demo_keys_fresh = \<lparr>issuerKeyPair = None, issuerFile = None, ZEROID_ISSUER_PRIVATE_KEY = None\<rparr>"

section \<open>Properties of \<open>generateULID\<close>\<close>

lemma length_ENCODING: "length ENCODING = 32"
  by (simp add: ENCODING_def)

lemma enc_char_mod: "enc_char (x mod 32) = [ENCODING ! (x mod 32)]"
  by (simp add: enc_char_def length_ENCODING)

lemma encode_ts_length: "length (encode_ts n now ts) = n + length ts"
  by (induction n arbitrary: now ts) (simp_all add: enc_char_mod)

lemma encode_ts_set: "set ts \<subseteq> set ENCODING \<Longrightarrow> set (encode_ts n now ts) \<subseteq> set ENCODING"
proof (induction n arbitrary: now ts)
  case 0
  then show ?case by simp
next
  case (Suc n)
  have "ENCODING ! (now mod 32) \<in> set ENCODING"
    by (rule nth_mem) (simp add: length_ENCODING)
  with Suc.prems have "set (enc_char (now mod 32) @ ts) \<subseteq> set ENCODING"
    by (simp add: enc_char_mod)
  then show ?case using Suc.IH by simp
qed

lemma encode_rand_eq:
  "encode_rand bs i n acc = acc @ concat (map (\<lambda>j. rand_char bs (j mod 10)) [i..<i + n])"
proof (induction n arbitrary: i acc)
  case 0
  then show ?case by simp
next
  case (Suc n)
  have "[i..<i + Suc n] = i # [Suc i..<Suc i + n]"
    by (simp add: upt_conv_Cons del: upt_Suc)
  then show ?case by (simp add: Suc.IH del: upt_Suc)
qed

lemma rand_char_ok:
  "length bs = 10 \<Longrightarrow> rand_char bs (j mod 10) = [ENCODING ! (unat (bs ! (j mod 10)) mod 32)]"
  by (simp add: rand_char_def enc_char_mod)

lemma encode_rand_16:
  assumes "length bs = 10"
  shows "encode_rand bs 0 16 [] = map (\<lambda>j. ENCODING ! (unat (bs ! (j mod 10)) mod 32)) [0..<16]"
proof -
  have "concat (map (\<lambda>j. rand_char bs (j mod 10)) xs)
          = map (\<lambda>j. ENCODING ! (unat (bs ! (j mod 10)) mod 32)) xs" for xs
    by (induction xs) (simp_all add: rand_char_ok[OF assms])
  then show ?thesis by (simp add: encode_rand_eq)
qed

text \<open>
  Claim C9. Every identifier that \<open>generateULID\<close> returns (the buffer of
  \<open>crypto.randomBytes(10)\<close> has ten bytes) is a string of 26 characters of the Crockford
  alphabet; for each \<open>i\<close> in 0..5 the character at position \<open>20 + i\<close> equals the one at
  position \<open>10 + i\<close>; the identifier does not depend on the module state (\<open>lastTime\<close>,
  \<open>lastRandom\<close>) nor on the \<open>randomInt\<close> draw; and it depends on the ten random bytes
  only through their residues modulo 32, that is through 50 bits.
\<close>

theorem generateULID_shape:
  assumes "length randBytes = 10"
  shows "length (fst (generateULID st now randInt randBytes)) = 26
    \<and> set (fst (generateULID st now randInt randBytes)) \<subseteq> set ENCODING
    \<and> (\<forall>i<6. fst (generateULID st now randInt randBytes) ! (20 + i)
             = fst (generateULID st now randInt randBytes) ! (10 + i))
    \<and> fst (generateULID st now randInt randBytes) = fst (generateULID st' now randInt' randBytes)
    \<and> (\<forall>bs'. length bs' = 10 \<and> map (\<lambda>b. unat b mod 32) bs' = map (\<lambda>b. unat b mod 32) randBytes
          \<longrightarrow> fst (generateULID st now randInt bs') = fst (generateULID st now randInt randBytes))"
proof -
  let ?r = "map (\<lambda>j. ENCODING ! (unat (randBytes ! (j mod 10)) mod 32)) [0..<16]"
  have id: "fst (generateULID s now r randBytes) = encode_ts 10 now [] @ ?r" for s r
    by (simp add: generateULID_def Let_def encode_rand_16[OF assms])
  have len: "length (encode_ts 10 now []) = 10"
    by (simp add: encode_ts_length)
  have l26: "length (encode_ts 10 now [] @ ?r) = 26"
    using len by simp
  have sub: "set (encode_ts 10 now [] @ ?r) \<subseteq> set ENCODING"
  proof -
    have "set ?r \<subseteq> set ENCODING"
      by (auto intro!: nth_mem simp: length_ENCODING)
    moreover have "set (encode_ts 10 now []) \<subseteq> set ENCODING"
      by (rule encode_ts_set) simp
    ultimately show ?thesis by simp
  qed
  have rep: "(encode_ts 10 now [] @ ?r) ! (20 + i) = (encode_ts 10 now [] @ ?r) ! (10 + i)"
    if "i < 6" for i
  proof -
    have a: "(encode_ts 10 now [] @ ?r) ! (20 + i) = ?r ! (10 + i)"
      using len by (simp add: nth_append)
    have b: "(encode_ts 10 now [] @ ?r) ! (10 + i) = ?r ! i"
      using len by (simp add: nth_append)
    have c: "?r ! (10 + i) = ENCODING ! (unat (randBytes ! ((10 + i) mod 10)) mod 32)"
      using that by (subst nth_map) (simp_all del: upt_Suc)
    have d: "?r ! i = ENCODING ! (unat (randBytes ! (i mod 10)) mod 32)"
      using that by (subst nth_map) (simp_all del: upt_Suc)
    show ?thesis using a b c d by simp
  qed
  have indep: "fst (generateULID st now randInt bs') = fst (generateULID st now randInt randBytes)"
    if h: "length bs' = 10" "map (\<lambda>b. unat b mod 32) bs' = map (\<lambda>b. unat b mod 32) randBytes"
    for bs'
  proof -
    have e: "unat (bs' ! k) mod 32 = unat (randBytes ! k) mod 32" if "k < 10" for k
    proof -
      have "unat (bs' ! k) mod 32 = map (\<lambda>b. unat b mod 32) bs' ! k"
        using that h(1) by (simp only: nth_map)
      also have "\<dots> = map (\<lambda>b. unat b mod 32) randBytes ! k"
        by (simp only: h(2))
      also have "\<dots> = unat (randBytes ! k) mod 32"
        using that assms by (simp only: nth_map)
      finally show ?thesis .
    qed
    have "map (\<lambda>j. ENCODING ! (unat (bs' ! (j mod 10)) mod 32)) [0..<16] = ?r"
      by (rule map_cong) (simp_all add: e)
    then show ?thesis
      by (simp add: generateULID_def Let_def encode_rand_16[OF assms] encode_rand_16[OF h(1)])
  qed
  show ?thesis using id l26 sub rep indep by metis
qed

theorem generateULID_shape_witness:
  "length [1, 2, 3, 4, 5, 6, 7, 8, 9, 10 :: 8 word] = 10
   \<and> length (fst (generateULID \<lparr>lastTime = 0, lastRandom = 0\<rparr> 1700000000000 7
        [1, 2, 3, 4, 5, 6, 7, 8, 9, 10])) = 26
   \<and> fst (generateULID \<lparr>lastTime = 0, lastRandom = 0\<rparr> 1700000000000 7
        [1, 2, 3, 4, 5, 6, 7, 8, 9, 10]) ! (20 + 5)
     = fst (generateULID \<lparr>lastTime = 0, lastRandom = 0\<rparr> 1700000000000 7
        [1, 2, 3, 4, 5, 6, 7, 8, 9, 10]) ! (10 + 5)"
proof -
  have h: "length [1, 2, 3, 4, 5, 6, 7, 8, 9, 10 :: 8 word] = 10"
    by simp
  have "(5::nat) < 6"
    by simp
  with generateULID_shape[OF h, of "\<lparr>lastTime = 0, lastRandom = 0\<rparr>" 1700000000000 7] h
  show ?thesis by blast
qed

section \<open>Properties of \<open>aggregateProofs\<close>\<close>

lemma entry_result_cases:
  "entry_result G vkey e i =
     (case G vkey (publicSignals e) (proofObj e) of
        Inr v \<Rightarrow> \<lparr>index = i, valid = v, error = None\<rparr>
      | Inl (ErrorObj msg) \<Rightarrow> \<lparr>index = i, valid = False, error = Some msg\<rparr>
      | Inl NonError \<Rightarrow> \<lparr>index = i, valid = False, error = Some ''Unknown error''\<rparr>)"
  by (simp add: entry_result_def settled_entry_def verify_entry_def verifyProofWithKey_def
      split: sum.splits thrown.splits)

lemma index_entry_result: "index (entry_result G vkey e i) = i"
  by (simp add: entry_result_cases split: sum.splits thrown.splits)

lemma results_aggregateProofs:
  "results (aggregateProofs G proofs vkey) =
     map (\<lambda>(e, i). entry_result G vkey e i) (zip proofs [0..<length proofs])"
  by (cases proofs)
    (simp_all add: aggregateProofs_def Let_def entry_result_def case_prod_unfold del: upt_Suc)

lemma total_aggregateProofs: "total (aggregateProofs G proofs vkey) = length proofs"
  by (simp add: aggregateProofs_def Let_def)

lemma allValid_aggregateProofs:
  "allValid (aggregateProofs G proofs vkey) \<longleftrightarrow>
     validCount (aggregateProofs G proofs vkey) = total (aggregateProofs G proofs vkey)"
  by (simp add: aggregateProofs_def Let_def)

lemma validCount_aggregateProofs:
  "validCount (aggregateProofs G proofs vkey) =
     length (filter valid (results (aggregateProofs G proofs vkey)))"
  by (simp add: aggregateProofs_def Let_def comp_assoc)

lemma map_index_zip:
  "length is = length ps \<Longrightarrow>
     map index (map (\<lambda>(e, i). entry_result G vkey e i) (zip ps is)) = is"
  by (induction ps "is" rule: list_induct2') (simp_all add: index_entry_result)

text \<open>
  Claim C7, as the code has it. For a list of \<open>n\<close> entries: \<open>total = n\<close>; \<open>allValid\<close> holds
  exactly when \<open>validCount = total\<close>; \<open>validCount\<close> counts the valid results; the indices of
  the results are \<open>0, ..., n - 1\<close> in order (a permutation of \<open>0..n-1\<close>); and the result at
  position \<open>i\<close> is computed from entry \<open>i\<close> alone: the verifier's boolean with no error
  string when it returns, \<open>valid = False\<close> with the error's message (or \<open>Unknown error\<close>) when
  it throws.
\<close>

theorem aggregateProofs_results:
  "total (aggregateProofs G proofs vkey) = length proofs
   \<and> (allValid (aggregateProofs G proofs vkey) \<longleftrightarrow>
        validCount (aggregateProofs G proofs vkey) = total (aggregateProofs G proofs vkey))
   \<and> validCount (aggregateProofs G proofs vkey) =
        length (filter valid (results (aggregateProofs G proofs vkey)))
   \<and> map index (results (aggregateProofs G proofs vkey)) = [0..<length proofs]
   \<and> (\<forall>i<length proofs.
        results (aggregateProofs G proofs vkey) ! i =
          (case G vkey (publicSignals (proofs ! i)) (proofObj (proofs ! i)) of
             Inr v \<Rightarrow> \<lparr>index = i, valid = v, error = None\<rparr>
           | Inl (ErrorObj msg) \<Rightarrow> \<lparr>index = i, valid = False, error = Some msg\<rparr>
           | Inl NonError \<Rightarrow> \<lparr>index = i, valid = False, error = Some ''Unknown error''\<rparr>))"
proof -
  have "results (aggregateProofs G proofs vkey) ! i = entry_result G vkey (proofs ! i) i"
    if "i < length proofs" for i
    using that by (simp add: results_aggregateProofs del: upt_Suc)
  moreover have "map index (results (aggregateProofs G proofs vkey)) = [0..<length proofs]"
    by (simp only: results_aggregateProofs) (rule map_index_zip, simp)
  ultimately show ?thesis
    using total_aggregateProofs[of G proofs vkey] allValid_aggregateProofs[of G proofs vkey]
      validCount_aggregateProofs[of G proofs vkey]
    by (simp add: entry_result_cases)
qed

theorem aggregateProofs_results_witness:
  "total (aggregateProofs groth16_demo
      [\<lparr>proofObj = (), publicSignals = [''ok'']\<rparr>,
       \<lparr>proofObj = (), publicSignals = [''bad'']\<rparr>,
       \<lparr>proofObj = (), publicSignals = []\<rparr>] ()) = 3
   \<and> results (aggregateProofs groth16_demo
      [\<lparr>proofObj = (), publicSignals = [''ok'']\<rparr>,
       \<lparr>proofObj = (), publicSignals = [''bad'']\<rparr>,
       \<lparr>proofObj = (), publicSignals = []\<rparr>] ()) ! 2
     = \<lparr>index = 2, valid = False, error = Some ''malformed''\<rparr>"
proof -
  have "(2::nat) < length [\<lparr>proofObj = (), publicSignals = [''ok'']\<rparr>,
       \<lparr>proofObj = (), publicSignals = [''bad'']\<rparr>,
       \<lparr>proofObj = (), publicSignals = []\<rparr>]"
    by simp
  with aggregateProofs_results[of groth16_demo
      "[\<lparr>proofObj = (), publicSignals = [''ok'']\<rparr>,
       \<lparr>proofObj = (), publicSignals = [''bad'']\<rparr>,
       \<lparr>proofObj = (), publicSignals = []\<rparr>]" "()"]
  show ?thesis by (simp add: groth16_demo_def)
qed

text \<open>
  The claim as written asks for an error string also when the verifier returns \<open>false\<close>:
  the result of a rejected proof carries none.
\<close>

theorem aggregate_failure_no_error_string:
  "results (aggregateProofs groth16_false [\<lparr>proofObj = (), publicSignals = [''1'']\<rparr>] ())
     = [\<lparr>index = 0, valid = False, error = None\<rparr>]"
  by (simp add: aggregateProofs_def Let_def verify_entry_def verifyProofWithKey_def
      settled_entry_def groth16_false_def)

text \<open>
  Claim C8. On the empty list \<open>aggregateProofs\<close> returns
  \<open>{allValid: true, total: 0, validCount: 0, results: []}\<close>, while the schema of
  \<open>POST /proof/aggregate\<close> rejects an empty list, so the route answers it with a validation
  error and never reaches the function.
\<close>

theorem aggregateProofs_empty:
  "aggregateProofs G [] vkey = \<lparr>allValid = True, total = 0, validCount = 0, results = []\<rparr>
   \<and> \<not> aggregateRequestSchema ([] :: 'p AggregateProofEntry list)
   \<and> aggregate_route G vkeyFile [] = ValidationError"
  by (simp add: aggregateProofs_def aggregateRequestSchema_def aggregate_route_def)

section \<open>Properties of the in-memory cache\<close>

lemma map_of_map_delete:
  "map_of (map_delete m k) k' = (if k' = k then None else map_of m k')"
  by (induction m) (auto simp: map_delete_def)

lemma map_delete_notin: "k \<notin> fst ` set (map_delete m k)"
  by (auto simp: map_delete_def)

lemma map_set_new: "k \<notin> fst ` set m \<Longrightarrow> map_set m k v = m @ [(k, v)]"
  by (simp add: map_set_def)

lemma map_of_map_set:
  "map_of (map_set m k v) k' = (if k' = k then Some v else map_of m k')"
proof (cases "k \<in> fst ` set m")
  case False
  then have "map_of m k = None" by (simp add: map_of_eq_None_iff)
  with False show ?thesis by (auto simp: map_set_def map_add_def split: option.splits)
next
  case True
  have "map_of (map (\<lambda>(k', v'). if k' = k then (k, v) else (k', v')) xs) k'
       = (if k' = k then (if k \<in> fst ` set xs then Some v else None) else map_of xs k')" for xs
    by (induction xs) (auto split: if_splits)
  with True show ?thesis by (simp add: map_set_def)
qed

text \<open>
  Claim C6, as the code has it. \<open>get\<close> checks the TTL: a hit returns an entry whose age
  is at most the TTL and moves it to the most recent position (the end of the map); an
  entry older than the TTL is deleted and \<open>get\<close> returns nothing. \<open>set\<close> at capacity
  evicts the entry at the least recent position (the first key of the map) and keeps every
  other key; below capacity it evicts nothing. \<open>set\<close> does not read the TTL at all: its
  result is the same for every TTL.
\<close>

theorem lru_semantics:
  "(lru_get c key now = (Some e, c') \<longrightarrow>
       map_of (cache c) key = Some e
     \<and> int now - int (timestamp e) \<le> int (ttlMs c)
     \<and> cache c' = map_delete (cache c) key @ [(key, e)])
   \<and> (map_of (cache c) key = Some e \<and> int now - int (timestamp e) > int (ttlMs c) \<longrightarrow>
       fst (lru_get c key now) = None \<and> map_of (cache (snd (lru_get c key now))) key = None)
   \<and> (length (cache c) \<ge> maxSize c \<and> cache c = (oldest, e0) # rest \<longrightarrow>
       cache (lru_set c key v n now) =
         map_set (map_delete (cache c) oldest) key \<lparr>mc_valid = v, mc_nullifier = n, timestamp = now\<rparr>
     \<and> (oldest \<noteq> key \<longrightarrow> map_of (cache (lru_set c key v n now)) oldest = None)
     \<and> (\<forall>k. k \<noteq> oldest \<and> k \<noteq> key \<longrightarrow>
           map_of (cache (lru_set c key v n now)) k = map_of (cache c) k))
   \<and> (length (cache c) < maxSize c \<longrightarrow>
       cache (lru_set c key v n now) =
         map_set (cache c) key \<lparr>mc_valid = v, mc_nullifier = n, timestamp = now\<rparr>)
   \<and> cache (lru_set (c\<lparr>ttlMs := t\<rparr>) key v n now) = cache (lru_set c key v n now)"
proof -
  have g1: "map_of (cache c) key = Some e
     \<and> int now - int (timestamp e) \<le> int (ttlMs c)
     \<and> cache c' = map_delete (cache c) key @ [(key, e)]" if "lru_get c key now = (Some e, c')"
    using that by (auto simp: lru_get_def map_set_new[OF map_delete_notin] split: option.splits if_splits)
  have g2: "fst (lru_get c key now) = None \<and> map_of (cache (snd (lru_get c key now))) key = None"
    if "map_of (cache c) key = Some e" "int now - int (timestamp e) > int (ttlMs c)"
    using that by (simp add: lru_get_def map_of_map_delete)
  have s1: "cache (lru_set c key v n now) =
         map_set (map_delete (cache c) oldest) key \<lparr>mc_valid = v, mc_nullifier = n, timestamp = now\<rparr>"
    if "length (cache c) \<ge> maxSize c" "cache c = (oldest, e0) # rest"
    using that by (simp add: lru_set_def Let_def)
  have s2: "cache (lru_set c key v n now) =
         map_set (cache c) key \<lparr>mc_valid = v, mc_nullifier = n, timestamp = now\<rparr>"
    if "length (cache c) < maxSize c"
    using that by (simp add: lru_set_def Let_def)
  have s3: "cache (lru_set (c\<lparr>ttlMs := t\<rparr>) key v n now) = cache (lru_set c key v n now)"
    by (simp add: lru_set_def Let_def split: list.splits)
  show ?thesis
    using g1 g2 s2 s3 by (auto simp: s1 map_of_map_set map_of_map_delete)
qed

text \<open>
  The claim as written has the TTL checked on insert as well. It is not: an insertion at
  time 5000 leaves an entry written at time 0 in the cache although the TTL is 1000.
\<close>

theorem lru_set_keeps_expired:
  "cache (lru_set lru_demo ''b'' True ''m'' 5000)
     = [(''a'', \<lparr>mc_valid = True, mc_nullifier = ''n'', timestamp = 0\<rparr>),
        (''b'', \<lparr>mc_valid = True, mc_nullifier = ''m'', timestamp = 5000\<rparr>)]
   \<and> int 5000 - int (timestamp \<lparr>mc_valid = True, mc_nullifier = ''n'', timestamp = 0\<rparr>)
        > int (ttlMs lru_demo)"
  by (simp add: lru_set_def lru_demo_def Let_def map_set_def)

theorem lru_semantics_witness:
  "lru_get lru_demo ''a'' 500 =
     (Some \<lparr>mc_valid = True, mc_nullifier = ''n'', timestamp = 0\<rparr>, lru_demo)
   \<and> int 500 - int (timestamp \<lparr>mc_valid = True, mc_nullifier = ''n'', timestamp = 0\<rparr>)
        \<le> int (ttlMs lru_demo)"
proof -
  have h: "lru_get lru_demo ''a'' 500 =
     (Some \<lparr>mc_valid = True, mc_nullifier = ''n'', timestamp = 0\<rparr>, lru_demo)"
    by (simp add: lru_get_def lru_demo_def map_set_def map_delete_def)
  with lru_semantics[of lru_demo "''a''" 500 "\<lparr>mc_valid = True, mc_nullifier = ''n'', timestamp = 0\<rparr>" lru_demo]
  show ?thesis by simp
qed

section \<open>Properties of the stores and the escrow\<close>

lemma getStores_Some: "storesInstance s = Some st \<Longrightarrow> getStores s = (Inr st, s)"
  by (simp add: getStores_def)

lemma kv_get_Some:
  "storesInstance s = Some st \<Longrightarrow> kv_get w key s = (Inr (map_of (kv_of w st) key), s)"
  by (simp add: kv_get_def bindM_def getStores_def retE_def)

lemma encrypt_ok:
  "length key = 32 \<Longrightarrow>
   encrypt W P p key s =
     (Inr \<lparr>iv = to_hex (map (random_byte W (ticks s)) [0..<12]),
           ciphertext = fst (gcm_seal P key (map (random_byte W (ticks s)) [0..<12]) p),
           tag = snd (gcm_seal P key (map (random_byte W (ticks s)) [0..<12]) p),
           algorithm = ''aes-256-gcm''\<rparr>,
      s\<lparr>ticks := Suc (ticks s)\<rparr>)"
  by (simp add: encrypt_def bindM_def randomBytes_def retE_def)

lemma appendAuditLog_ok:
  assumes "storesInstance s = Some st" "storeKeys s ''auditLog'' = Some k" "length k = 32"
  shows "appendAuditLog W P entry s =
     (Inr (), s\<lparr>ticks := Suc (ticks s),
               storesInstance := Some (st\<lparr>auditLog := auditLog st @ [sealed_log W P k (ticks s) entry]\<rparr>)\<rparr>)"
  using assms
  by (simp add: appendAuditLog_def bindM_def getStores_def getStoreKey_def encrypt_ok log_add_def
      sealed_log_def)

lemma decryptKVGet_state: "snd (decryptKVGet P raw n s) = s"
  by (simp add: decryptKVGet_def bindM_def retE_def throwE_def getStoreKey_def decrypt_def
      split: option.splits sum.splits prod.splits if_splits)

lemma read_escrow_state: "snd (read_escrow P raw s) = s"
proof -
  obtain r s' where d: "decryptKVGet P raw ''escrow'' s = (r, s')" by (cases "decryptKVGet P raw ''escrow'' s")
  with decryptKVGet_state[of P raw "''escrow''" s] have "s' = s" by simp
  with d show ?thesis
    by (simp add: read_escrow_def bindM_def retE_def throwE_def split: sum.splits option.splits)
qed

lemma decryptKVGet_keys:
  "storeKeys s' n = storeKeys s n \<Longrightarrow> fst (decryptKVGet P raw n s') = fst (decryptKVGet P raw n s)"
  by (simp add: decryptKVGet_def bindM_def retE_def throwE_def getStoreKey_def decrypt_def
      split: option.splits sum.splits prod.splits if_splits)

lemma read_escrow_keys:
  assumes "storeKeys s' ''escrow'' = storeKeys s ''escrow''"
  shows "fst (read_escrow P raw s') = fst (read_escrow P raw s)"
proof -
  have a: "decryptKVGet P raw ''escrow'' s = (fst (decryptKVGet P raw ''escrow'' s), s)"
    using decryptKVGet_state[of P raw "''escrow''" s] by (simp add: prod_eq_iff)
  have b: "decryptKVGet P raw ''escrow'' s' = (fst (decryptKVGet P raw ''escrow'' s), s')"
    using decryptKVGet_state[of P raw "''escrow''" s'] decryptKVGet_keys[OF assms, of P raw]
    by (simp add: prod_eq_iff)
  show ?thesis
    unfolding read_escrow_def bindM_def
    by (subst a, subst b) (simp add: retE_def throwE_def split: sum.splits option.splits)
qed

lemma read_escrow_eq:
  assumes "fst (read_escrow P raw s) = r" "storeKeys s' ''escrow'' = storeKeys s ''escrow''"
  shows "read_escrow P raw s' = (r, s')"
  using read_escrow_keys[OF assms(2), of P raw] read_escrow_state[of P raw s'] assms(1)
  by (simp add: prod_eq_iff)


lemma appendAuditLog_unfold:
  "appendAuditLog W P entry s =
     (case storesInstance s of
        None \<Rightarrow> (Inl StoresNotOpened, s)
      | Some st \<Rightarrow>
          (case storeKeys s ''auditLog'' of
             None \<Rightarrow> (Inl (StoreKeyNotDerived ''auditLog''), s)
           | Some k \<Rightarrow>
               if length k \<noteq> 32 then (Inl (AesKeyLength (length k)), s)
               else (Inr (), s\<lparr>ticks := Suc (ticks s),
                      storesInstance := Some (st\<lparr>auditLog := auditLog st @
                         [sealed_log W P k (ticks s) entry]\<rparr>)\<rparr>)))"
  by (simp add: appendAuditLog_def bindM_def getStores_def getStoreKey_def encrypt_def
      randomBytes_def retE_def throwE_def log_add_def sealed_log_def split: option.splits)

lemma encryptedKVPut_unfold:
  "encryptedKVPut W P w n key v s =
     (case storeKeys s n of
        None \<Rightarrow> (Inl (StoreKeyNotDerived n), s)
      | Some k \<Rightarrow>
          if length k \<noteq> 32 then (Inl (AesKeyLength (length k)), s)
          else (case storesInstance s of
                  None \<Rightarrow> (Inl StoresNotOpened, s\<lparr>ticks := Suc (ticks s)\<rparr>)
                | Some st \<Rightarrow>
                    (Inr (), s\<lparr>ticks := Suc (ticks s),
                       storesInstance := Some
                         (case w of
                            EscrowKV \<Rightarrow> st\<lparr>escrow := map_set (escrow st) key (sealed_kv W P k (ticks s) v)\<rparr>
                          | NullifiersKV \<Rightarrow> st\<lparr>nullifiers := map_set (nullifiers st) key (sealed_kv W P k (ticks s) v)\<rparr>
                          | ProofCacheKV \<Rightarrow> st\<lparr>proofCache := map_set (proofCache st) key (sealed_kv W P k (ticks s) v)\<rparr>)\<rparr>)))"
  by (simp add: encryptedKVPut_def bindM_def getStores_def getStoreKey_def encrypt_def
      randomBytes_def retE_def throwE_def kv_put_def sealed_kv_def split: option.splits kv_store.splits)

lemma getEscrowEntry_live:
  assumes st: "storesInstance s = Some st"
    and found: "fst (read_escrow P (map_of (escrow st) escrowId) s) = Inr (Some e)"
    and live: "\<not> invalidated e" "clock W (ticks s) \<le> expiry_ms e"
    and ak: "storeKeys s ''auditLog'' = Some k" "length k = 32"
  shows "getEscrowEntry W P escrowId regulatorKey actorId s =
     bindM (decrypt P (encryptedBlob e) regulatorKey) (\<lambda>plaintext.
        if sha256_hex P plaintext \<noteq> integrityHash e then throwE EscrowIntegrity
        else (case JSON_parse P plaintext of
                Inl m \<Rightarrow> throwE (JsonSyntax m)
              | Inr j \<Rightarrow> retE j))
       (s\<lparr>ticks := Suc (Suc (Suc (ticks s))),
          storesInstance := Some (st\<lparr>auditLog := auditLog st @
            [sealed_log W P k (ticks s + 2)
               \<lparr>action = escrow_access, resourceId = escrowId, actor = actorId,
                audit_timestamp = clock W (ticks s + 1),
                metadata = [(''regulatorKeyId'', regulatorKeyId e)]\<rparr>]\<rparr>)\<rparr>)"
proof -
  have r: "read_escrow P (map_of (escrow st) escrowId) s = (Inr (Some e), s)"
    using found read_escrow_state[of P "map_of (escrow st) escrowId" s] by (simp add: prod_eq_iff)
  let ?s2 = "s\<lparr>ticks := Suc (Suc (ticks s))\<rparr>"
  have a: "appendAuditLog W P entry ?s2 =
     (Inr (), ?s2\<lparr>ticks := Suc (ticks ?s2),
        storesInstance := Some (st\<lparr>auditLog := auditLog st @ [sealed_log W P k (ticks ?s2) entry]\<rparr>)\<rparr>)"
    for entry
    by (rule appendAuditLog_ok) (simp_all add: st ak)
  have nl: "\<not> expiry_ms e < clock W (ticks s)" using live(2) by simp
  show ?thesis
    by (simp add: getEscrowEntry_def bindM_def getStores_Some[OF st] kv_get_Some[OF st] kv_of_def
        r live(1) nl Date_now_def a)
qed

lemma getEscrowEntry_live_state:
  assumes st: "storesInstance s = Some st"
    and found: "fst (read_escrow P (map_of (escrow st) escrowId) s) = Inr (Some e)"
    and live: "\<not> invalidated e" "clock W (ticks s) \<le> expiry_ms e"
    and ak: "storeKeys s ''auditLog'' = Some k" "length k = 32"
  shows "snd (getEscrowEntry W P escrowId regulatorKey actorId s) =
       s\<lparr>ticks := ticks s + 3,
          storesInstance := Some (st\<lparr>auditLog := auditLog st @
            [sealed_log W P k (ticks s + 2)
               \<lparr>action = escrow_access, resourceId = escrowId, actor = actorId,
                audit_timestamp = clock W (ticks s + 1),
                metadata = [(''regulatorKeyId'', regulatorKeyId e)]\<rparr>]\<rparr>)\<rparr>"
  by (simp add: getEscrowEntry_live[OF assms] bindM_def decrypt_def throwE_def
        retE_def split: sum.splits)

text \<open>
  Claim C10. When \<open>getEscrowEntry\<close> finds an entry that is not invalidated and not
  expired, the audit log has gained an \<open>escrow_access\<close> record by the time the regulator
  key is tried, and it stays: whatever the key, the stores after the call hold the old log
  followed by the sealed access entry. With a key that does not open the blob the call
  throws the decryption error, with a plaintext whose hash differs it throws the integrity
  error, and the record is there in both cases. \<open>escrowExists\<close>, which probes with a random
  key, leaves such a record under the actor \<open>existence_check\<close>.
\<close>

theorem getEscrowEntry_audits_access:
  assumes st: "storesInstance s = Some st"
    and found: "fst (read_escrow P (map_of (escrow st) escrowId) s) = Inr (Some e)"
    and inv: "\<not> invalidated e"
    and ak: "storeKeys s ''auditLog'' = Some k" "length k = 32"
  shows "(clock W (ticks s) \<le> expiry_ms e \<longrightarrow>
       storesInstance (snd (getEscrowEntry W P escrowId regulatorKey actorId s)) =
         Some (st\<lparr>auditLog := auditLog st @
            [sealed_log W P k (ticks s + 2)
               \<lparr>action = escrow_access, resourceId = escrowId, actor = actorId,
                audit_timestamp = clock W (ticks s + 1),
                metadata = [(''regulatorKeyId'', regulatorKeyId e)]\<rparr>]\<rparr>)
     \<and> (\<forall>m. length regulatorKey = 32 \<and>
            gcm_open P regulatorKey (iv (encryptedBlob e)) (ciphertext (encryptedBlob e))
              (tag (encryptedBlob e)) = Inl m \<longrightarrow>
            fst (getEscrowEntry W P escrowId regulatorKey actorId s) = Inl (CryptoThrow m))
     \<and> (\<forall>p. length regulatorKey = 32 \<and>
            gcm_open P regulatorKey (iv (encryptedBlob e)) (ciphertext (encryptedBlob e))
              (tag (encryptedBlob e)) = Inr p \<and> sha256_hex P p \<noteq> integrityHash e \<longrightarrow>
            fst (getEscrowEntry W P escrowId regulatorKey actorId s) = Inl EscrowIntegrity))
   \<and> (clock W (Suc (ticks s)) \<le> expiry_ms e \<longrightarrow>
       storesInstance (snd (escrowExists W P escrowId s)) =
         Some (st\<lparr>auditLog := auditLog st @
            [sealed_log W P k (ticks s + 3)
               \<lparr>action = escrow_access, resourceId = escrowId, actor = ''existence_check'',
                audit_timestamp = clock W (ticks s + 2),
                metadata = [(''regulatorKeyId'', regulatorKeyId e)]\<rparr>]\<rparr>))"
proof -
  have part1: "storesInstance (snd (getEscrowEntry W P escrowId rk actorId s)) =
         Some (st\<lparr>auditLog := auditLog st @
            [sealed_log W P k (ticks s + 2)
               \<lparr>action = escrow_access, resourceId = escrowId, actor = actorId,
                audit_timestamp = clock W (ticks s + 1),
                metadata = [(''regulatorKeyId'', regulatorKeyId e)]\<rparr>]\<rparr>)"
    if "clock W (ticks s) \<le> expiry_ms e" for rk actorId
    by (simp add: getEscrowEntry_live_state[OF st found inv that ak])
  have part2: "fst (getEscrowEntry W P escrowId regulatorKey actorId s) = Inl (CryptoThrow m)"
    if "clock W (ticks s) \<le> expiry_ms e" "length regulatorKey = 32"
      "gcm_open P regulatorKey (iv (encryptedBlob e)) (ciphertext (encryptedBlob e))
              (tag (encryptedBlob e)) = Inl m" for m
    using that(2,3)
    by (simp add: getEscrowEntry_live[OF st found inv that(1) ak] bindM_def decrypt_def throwE_def)
  have part3: "fst (getEscrowEntry W P escrowId regulatorKey actorId s) = Inl EscrowIntegrity"
    if "clock W (ticks s) \<le> expiry_ms e" "length regulatorKey = 32"
      "gcm_open P regulatorKey (iv (encryptedBlob e)) (ciphertext (encryptedBlob e))
              (tag (encryptedBlob e)) = Inr p" "sha256_hex P p \<noteq> integrityHash e" for p
    using that(2,3,4)
    by (simp add: getEscrowEntry_live[OF st found inv that(1) ak] bindM_def decrypt_def throwE_def
        retE_def)
  have part4: "storesInstance (snd (escrowExists W P escrowId s)) =
         Some (st\<lparr>auditLog := auditLog st @
            [sealed_log W P k (ticks s + 3)
               \<lparr>action = escrow_access, resourceId = escrowId, actor = ''existence_check'',
                audit_timestamp = clock W (ticks s + 2),
                metadata = [(''regulatorKeyId'', regulatorKeyId e)]\<rparr>]\<rparr>)"
    if t: "clock W (Suc (ticks s)) \<le> expiry_ms e"
  proof -
    let ?s1 = "s\<lparr>ticks := Suc (ticks s)\<rparr>"
    have st1: "storesInstance ?s1 = Some st" using st by simp
    have f1: "fst (read_escrow P (map_of (escrow st) escrowId) ?s1) = Inr (Some e)"
      using read_escrow_eq[OF found, of ?s1] by simp
    have t1: "clock W (ticks ?s1) \<le> expiry_ms e" using t by simp
    have ak1: "storeKeys ?s1 ''auditLog'' = Some k" using ak by simp
    note g = getEscrowEntry_live[OF st1 f1 inv t1 ak1 ak(2)]
    note g = getEscrowEntry_live_state[OF st1 f1 inv t1 ak1 ak(2),
        of "map (random_byte W (ticks s)) [0..<32]" "''existence_check''"]
    have "snd (escrowExists W P escrowId s) =
        snd (getEscrowEntry W P escrowId (map (random_byte W (ticks s)) [0..<32])
               ''existence_check'' ?s1)"
      by (simp add: escrowExists_def bindM_def[of "randomBytes W 32"] randomBytes_def
          split: sum.splits prod.splits)
    with g show ?thesis by (simp add: eval_nat_numeral)
  qed
  show ?thesis using part1 part2 part3 part4 by blast
qed

lemma EncryptedPayload_json: "EncryptedPayload_of_json (EncryptedPayload_to_json p) = Some p"
  by (simp add: EncryptedPayload_of_json_def EncryptedPayload_to_json_def)

lemma EscrowEntry_json: "EscrowEntry_of_json (EscrowEntry_to_json e) = Some e"
  by (cases "expiresAt e")
    (simp_all add: EscrowEntry_of_json_def EscrowEntry_to_json_def EncryptedPayload_json
      expiresAt_of_json_def)

lemma truthy_EscrowEntry: "truthy (EscrowEntry_to_json e)"
  by (simp add: EscrowEntry_to_json_def)

lemma length_iv: "length (map (random_byte W t) [0..<12]) = 12"
  by simp

lemma read_sealed_escrow:
  assumes g: "gcm_correct P" and j: "json_roundtrip P (EscrowEntry_to_json e)"
    and k: "storeKeys s ''escrow'' = Some sk" "length sk = 32"
  shows "read_escrow P (Some (sealed_kv W P sk t (EscrowEntry_to_json e))) s = (Inr (Some e), s)"
proof -
  let ?ivb = "map (random_byte W t) [0..<12]"
  let ?pt = "JSON_stringify P (EscrowEntry_to_json e)"
  from g k(2) length_iv[of W t]
  have o: "gcm_open P sk (to_hex ?ivb) (fst (gcm_seal P sk ?ivb ?pt)) (snd (gcm_seal P sk ?ivb ?pt)) = Inr ?pt"
    and ne: "?pt \<noteq> [] \<longrightarrow> fst (gcm_seal P sk ?ivb ?pt) \<noteq> []"
    unfolding gcm_correct_def by blast+
  from j have p: "JSON_parse P ?pt = Inr (EscrowEntry_to_json e)" and n: "?pt \<noteq> []"
    by (simp_all add: json_roundtrip_def)
  from ne n have ne': "fst (gcm_seal P sk ?ivb ?pt) \<noteq> []" by simp
  have d: "decryptKVGet P (Some (sealed_kv W P sk t (EscrowEntry_to_json e))) ''escrow'' s
        = (Inr (Some (EscrowEntry_to_json e)), s)"
    using o ne' p k
    by (simp add: decryptKVGet_def sealed_kv_def bindM_def getStoreKey_def decrypt_def retE_def)
  show ?thesis
    by (simp add: read_escrow_def bindM_def d truthy_EscrowEntry EscrowEntry_json retE_def)
qed

lemma putEscrowEntry_ok:
  assumes st: "storesInstance s = Some st"
    and ek: "storeKeys s ''escrow'' = Some sk" "length sk = 32"
    and ak: "storeKeys s ''auditLog'' = Some k" "length k = 32"
    and rk: "length regulatorKey = 32"
  shows "putEscrowEntry W P escrowId rawPII regulatorKey rid cid jur s =
     (Inr (),
      s\<lparr>ticks := Suc (Suc (Suc (Suc (Suc (Suc (ticks s)))))),
        storesInstance := Some
          (st\<lparr>escrow := map_set (escrow st) escrowId
                  (sealed_kv W P sk (Suc (Suc (Suc (ticks s))))
                     (EscrowEntry_to_json (put_entry W P s rawPII regulatorKey rid cid jur))),
              auditLog := auditLog st @
                  [sealed_log W P k (Suc (Suc (Suc (Suc (Suc (ticks s))))))
                     \<lparr>action = escrow_create, resourceId = escrowId, actor = ''system'',
                      audit_timestamp = clock W (Suc (Suc (Suc (Suc (ticks s))))),
                      metadata = [(''regulatorKeyId'', rid), (''jurisdiction'', jur),
                                  (''credentialId'', cid)]\<rparr>]\<rparr>)\<rparr>)"
  using st ek ak rk
  by (simp add: putEscrowEntry_def bindM_def getStores_def encrypt_def randomBytes_def retE_def
      throwE_def Date_now_def encryptedKVPut_unfold appendAuditLog_unfold put_entry_def)

lemma getRetentionMs_own:
  "jur \<notin> set Object_prototype_members \<Longrightarrow> getRetentionMs jur = Some 157788000000"
  by (simp add: getRetentionMs_def RETENTION_POLICIES_def)

lemma getRetentionMs_inherited:
  "jur \<in> set Object_prototype_members \<Longrightarrow> getRetentionMs jur = None"
  by (auto simp: getRetentionMs_def RETENTION_POLICIES_def Object_prototype_members_def)

text \<open>
  Claim C2. Let the platform's AES-GCM be correct and \<open>rawPII\<close> (and the entry built
  around it) be JSON-representable, the stores be open with 32-byte keys for the escrow
  store and the audit log, and the regulator key have 32 bytes. Then \<open>putEscrowEntry\<close>
  succeeds; the entry it stores has \<open>integrityHash = SHA-256\<close> of the serialised plaintext;
  and in any later state that still holds that value under \<open>escrowId\<close> (no rotation), with
  the same store keys, at a clock reading that the expiry test of the read lets pass (not
  after \<open>expiresAt\<close>), \<open>getEscrowEntry\<close> with the same key reads the entry back, passes
  the integrity check and returns exactly \<open>rawPII\<close>. For every jurisdiction that is not the
  name of an inherited object member, \<open>expiresAt\<close> is the clock read of the put plus five
  years of 365.25 days; for such a name the retention is \<open>NaN\<close>, the stored \<open>expiresAt\<close> is
  \<open>null\<close>, and no read at a positive clock reading is before expiry.
\<close>

theorem escrow_round_trip:
  assumes g: "gcm_correct P"
    and jp: "json_roundtrip P rawPII"
    and je: "json_roundtrip P (EscrowEntry_to_json (put_entry W P s rawPII regulatorKey rid cid jur))"
    and st: "storesInstance s = Some st"
    and ek: "storeKeys s ''escrow'' = Some sk" "length sk = 32"
    and ak: "storeKeys s ''auditLog'' = Some k" "length k = 32"
    and rk: "length regulatorKey = 32"
    and st1: "storesInstance (snd (putEscrowEntry W P escrowId rawPII regulatorKey rid cid jur s)) = Some st1"
    and st2: "storesInstance s2 = Some st2"
    and same: "map_of (escrow st2) escrowId = map_of (escrow st1) escrowId"
    and keys: "storeKeys s2 = storeKeys s"
    and live: "clock W (ticks s2) \<le> expiry_ms (put_entry W P s rawPII regulatorKey rid cid jur)"
  shows "fst (putEscrowEntry W P escrowId rawPII regulatorKey rid cid jur s) = Inr ()
     \<and> fst (read_escrow P (map_of (escrow st2) escrowId) s2)
         = Inr (Some (put_entry W P s rawPII regulatorKey rid cid jur))
     \<and> integrityHash (put_entry W P s rawPII regulatorKey rid cid jur)
         = sha256_hex P (JSON_stringify P rawPII)
     \<and> fst (getEscrowEntry W P escrowId regulatorKey actorId s2) = Inr rawPII
     \<and> (jur \<notin> set Object_prototype_members \<longrightarrow>
          expiresAt (put_entry W P s rawPII regulatorKey rid cid jur)
            = Some (clock W (ticks s + 2) + 157788000000))
     \<and> (jur \<in> set Object_prototype_members \<longrightarrow>
          expiresAt (put_entry W P s rawPII regulatorKey rid cid jur) = None
        \<and> clock W (ticks s2) = 0)"
proof -
  let ?e = "put_entry W P s rawPII regulatorKey rid cid jur"
  note p = putEscrowEntry_ok[OF st ek ak rk, of W P escrowId rawPII rid cid jur]
  from p st1 have "st1 = st\<lparr>escrow := map_set (escrow st) escrowId
                  (sealed_kv W P sk (Suc (Suc (Suc (ticks s)))) (EscrowEntry_to_json ?e)),
              auditLog := auditLog st @
                  [sealed_log W P k (Suc (Suc (Suc (Suc (Suc (ticks s))))))
                     \<lparr>action = escrow_create, resourceId = escrowId, actor = ''system'',
                      audit_timestamp = clock W (Suc (Suc (Suc (Suc (ticks s))))),
                      metadata = [(''regulatorKeyId'', rid), (''jurisdiction'', jur),
                                  (''credentialId'', cid)]\<rparr>]\<rparr>"
    by simp
  then have m: "map_of (escrow st2) escrowId =
      Some (sealed_kv W P sk (Suc (Suc (Suc (ticks s)))) (EscrowEntry_to_json ?e))"
    using same by (simp add: map_of_map_set)
  have ek2: "storeKeys s2 ''escrow'' = Some sk" using ek keys by simp
  have ak2: "storeKeys s2 ''auditLog'' = Some k" using ak keys by simp
  have r: "read_escrow P (map_of (escrow st2) escrowId) s2 = (Inr (Some ?e), s2)"
    unfolding m by (rule read_sealed_escrow[OF g je ek2 ek(2)])
  have inv: "\<not> invalidated ?e" by (simp add: put_entry_def)
  have f: "fst (read_escrow P (map_of (escrow st2) escrowId) s2) = Inr (Some ?e)"
    using r by simp
  note gl = getEscrowEntry_live[OF st2 f inv live ak2 ak(2), where regulatorKey = regulatorKey and actorId = actorId]
  let ?ivb = "map (random_byte W (ticks s)) [0..<12]"
  let ?pt = "JSON_stringify P rawPII"
  from g rk length_iv[of W "ticks s"]
  have o: "gcm_open P regulatorKey (to_hex ?ivb) (fst (gcm_seal P regulatorKey ?ivb ?pt))
             (snd (gcm_seal P regulatorKey ?ivb ?pt)) = Inr ?pt"
    unfolding gcm_correct_def by blast
  from jp have pp: "JSON_parse P ?pt = Inr rawPII" by (simp add: json_roundtrip_def)
  have "fst (getEscrowEntry W P escrowId regulatorKey actorId s2) = Inr rawPII"
    using o pp rk
    by (simp add: gl bindM_def decrypt_def put_entry_def retE_def)
  moreover have "integrityHash ?e = sha256_hex P ?pt" by (simp add: put_entry_def)
  moreover have "expiresAt ?e = Some (clock W (ticks s + 2) + 157788000000)"
    if "jur \<notin> set Object_prototype_members"
    by (simp add: put_entry_def getRetentionMs_own[OF that])
  moreover have "expiresAt ?e = None \<and> clock W (ticks s2) = 0"
    if "jur \<in> set Object_prototype_members"
    using live by (simp add: put_entry_def getRetentionMs_inherited[OF that] expiry_ms_def)
  ultimately show ?thesis using p f by simp
qed

text \<open>
  With a jurisdiction named like an inherited object member the entry is stored with
  \<open>expiresAt = null\<close>, and a read at any positive clock reading fails as expired.
\<close>

lemma escrow_inherited_jurisdiction_expired:
  assumes g: "gcm_correct P"
    and je: "json_roundtrip P (EscrowEntry_to_json (put_entry W P s rawPII regulatorKey rid cid jur))"
    and st: "storesInstance s = Some st"
    and ek: "storeKeys s ''escrow'' = Some sk" "length sk = 32"
    and ak: "storeKeys s ''auditLog'' = Some k" "length k = 32"
    and rk: "length regulatorKey = 32"
    and st1: "storesInstance (snd (putEscrowEntry W P escrowId rawPII regulatorKey rid cid jur s)) = Some st1"
    and st2: "storesInstance s2 = Some st2"
    and same: "map_of (escrow st2) escrowId = map_of (escrow st1) escrowId"
    and keys: "storeKeys s2 = storeKeys s"
    and jur: "jur \<in> set Object_prototype_members"
    and pos: "0 < clock W (ticks s2)"
  shows "fst (getEscrowEntry W P escrowId key actorId s2) = Inl (EscrowExpired escrowId)"
proof -
  let ?e = "put_entry W P s rawPII regulatorKey rid cid jur"
  note p = putEscrowEntry_ok[OF st ek ak rk, of W P escrowId rawPII rid cid jur]
  from p st1 have "map_of (escrow st1) escrowId =
      Some (sealed_kv W P sk (Suc (Suc (Suc (ticks s)))) (EscrowEntry_to_json ?e))"
    by (auto simp: map_of_map_set)
  then have m: "map_of (escrow st2) escrowId =
      Some (sealed_kv W P sk (Suc (Suc (Suc (ticks s)))) (EscrowEntry_to_json ?e))"
    using same by simp
  have ek2: "storeKeys s2 ''escrow'' = Some sk" using ek keys by simp
  have r: "read_escrow P (map_of (escrow st2) escrowId) s2 = (Inr (Some ?e), s2)"
    unfolding m by (rule read_sealed_escrow[OF g je ek2 ek(2)])
  have e0: "expiry_ms ?e = 0" "\<not> invalidated ?e"
    by (simp_all add: put_entry_def expiry_ms_def getRetentionMs_inherited[OF jur])
  show ?thesis
    using pos
    by (simp add: getEscrowEntry_def bindM_def getStores_Some[OF st2] kv_get_Some[OF st2] kv_of_def
        r e0 Date_now_def throwE_def)
qed

lemma gcm_correct_demo: "gcm_correct demo_prims"
  by (simp add: gcm_correct_def demo_prims_def demo_seal_def demo_open_def)

lemma json_roundtrip_demo: "json_roundtrip demo_prims j"
  by (simp add: json_roundtrip_def demo_prims_def demo_stringify_def demo_parse_def)

lemma length_demo_key: "length (demo_key b) = 32"
  by (simp add: demo_key_def)

lemma demo_server_keys:
  "storeKeys demo_server ''escrow'' = Some (demo_key 7)"
  "storeKeys demo_server ''auditLog'' = Some (demo_key 7)"
  "storeKeys demo_server ''nullifiers'' = Some (demo_key 7)"
  "storeKeys demo_server ''proofCache'' = Some (demo_key 7)"
  by (simp_all add: demo_server_def)

lemma demo_server_stores:
  "storesInstance demo_server = Some \<lparr>escrow = [], nullifiers = [], proofCache = [], auditLog = []\<rparr>"
  by (simp add: demo_server_def)

lemma demo_after_put_eq:
  "demo_after_put =
     demo_server\<lparr>ticks := 6,
        storesInstance := Some
          \<lparr>escrow = [(''01ESCROW'', sealed_kv demo_world demo_prims (demo_key 7) 3
                         (EscrowEntry_to_json demo_entry))],
           nullifiers = [], proofCache = [],
           auditLog = [sealed_log demo_world demo_prims (demo_key 7) 5
                     \<lparr>action = escrow_create, resourceId = ''01ESCROW'', actor = ''system'',
                      audit_timestamp = 1004,
                      metadata = [(''regulatorKeyId'', ''default''), (''jurisdiction'', ''US''),
                                  (''credentialId'', ''cred-1'')]\<rparr>]\<rparr>\<rparr>"
proof -
  have t: "ticks demo_server = 0" by (simp add: demo_server_def)
  show ?thesis
    unfolding demo_after_put_def demo_entry_def
    by (simp add: putEscrowEntry_ok[OF demo_server_stores demo_server_keys(1) length_demo_key
          demo_server_keys(2) length_demo_key length_demo_key] t map_set_def demo_world_def
        eval_nat_numeral)
qed

lemma demo_entry_expiresAt: "expiry_ms demo_entry = 157788001002"
  by (simp add: expiry_ms_def demo_entry_def put_entry_def demo_world_def demo_server_def
      getRetentionMs_def RETENTION_POLICIES_def)

lemma demo_entry_live: "\<not> invalidated demo_entry"
  by (simp add: demo_entry_def put_entry_def)

lemma demo_read:
  assumes "storeKeys s ''escrow'' = Some (demo_key 7)"
  shows "read_escrow demo_prims
            (Some (sealed_kv demo_world demo_prims (demo_key 7) 3 (EscrowEntry_to_json demo_entry)))
            s = (Inr (Some demo_entry), s)"
  by (rule read_sealed_escrow[OF gcm_correct_demo json_roundtrip_demo assms length_demo_key])

theorem escrow_round_trip_witness:
  "length (demo_key 1) = 32
   \<and> fst (putEscrowEntry demo_world demo_prims ''01ESCROW'' demo_pii (demo_key 1) ''default''
            ''cred-1'' ''US'' demo_server) = Inr ()
   \<and> integrityHash demo_entry = sha256_hex demo_prims (JSON_stringify demo_prims demo_pii)
   \<and> fst (getEscrowEntry demo_world demo_prims ''01ESCROW'' (demo_key 1) ''regulator''
            demo_after_put) = Inr demo_pii"
proof -
  have st1: "storesInstance (snd (putEscrowEntry demo_world demo_prims ''01ESCROW'' demo_pii
      (demo_key 1) ''default'' ''cred-1'' ''US'' demo_server)) =
      Some \<lparr>escrow = [(''01ESCROW'', sealed_kv demo_world demo_prims (demo_key 7) 3
                         (EscrowEntry_to_json demo_entry))],
           nullifiers = [], proofCache = [],
           auditLog = [sealed_log demo_world demo_prims (demo_key 7) 5
                     \<lparr>action = escrow_create, resourceId = ''01ESCROW'', actor = ''system'',
                      audit_timestamp = 1004,
                      metadata = [(''regulatorKeyId'', ''default''), (''jurisdiction'', ''US''),
                                  (''credentialId'', ''cred-1'')]\<rparr>]\<rparr>"
    using demo_after_put_eq by (simp add: demo_after_put_def)
  have st2: "storesInstance demo_after_put =
      Some \<lparr>escrow = [(''01ESCROW'', sealed_kv demo_world demo_prims (demo_key 7) 3
                         (EscrowEntry_to_json demo_entry))],
           nullifiers = [], proofCache = [],
           auditLog = [sealed_log demo_world demo_prims (demo_key 7) 5
                     \<lparr>action = escrow_create, resourceId = ''01ESCROW'', actor = ''system'',
                      audit_timestamp = 1004,
                      metadata = [(''regulatorKeyId'', ''default''), (''jurisdiction'', ''US''),
                                  (''credentialId'', ''cred-1'')]\<rparr>]\<rparr>"
    by (simp add: demo_after_put_eq)
  have keys: "storeKeys demo_after_put = storeKeys demo_server"
    by (simp add: demo_after_put_eq)
  have live: "clock demo_world (ticks demo_after_put)
      \<le> expiry_ms (put_entry demo_world demo_prims demo_server demo_pii (demo_key 1) ''default''
            ''cred-1'' ''US'')"
    using demo_entry_expiresAt by (simp add: demo_after_put_eq demo_world_def demo_entry_def)
  from escrow_round_trip[OF gcm_correct_demo json_roundtrip_demo json_roundtrip_demo
      demo_server_stores demo_server_keys(1) length_demo_key demo_server_keys(2) length_demo_key
      length_demo_key st1 st2 refl keys live, of "''regulator''"]
  show ?thesis by (simp add: length_demo_key demo_entry_def)
qed

lemma rotate_not_deferred:
  assumes st: "storesInstance s = Some st"
    and found: "fst (read_escrow P (map_of (escrow st) escrowId) s) = Inr (Some e)"
    and now: "clock W (ticks s) = expiry_ms e"
    and res: "fst (rotateEscrowEntry W P escrowId actorId False s) = Inr res"
  shows "fst res"
proof -
  have r: "read_escrow P (map_of (escrow st) escrowId) s = (Inr (Some e), s)"
    using found read_escrow_state[of P "map_of (escrow st) escrowId" s] by (simp add: prod_eq_iff)
  show ?thesis
    using res now
    by (auto simp add: rotateEscrowEntry_def bindM_def getStores_Some[OF st] kv_get_Some[OF st]
        kv_of_def r Date_now_def randomBytes_def encrypt_def retE_def throwE_def
        encryptedKVPut_unfold appendAuditLog_unfold st
        split: option.splits if_splits)
qed

lemma getEscrowEntry_boundary:
  assumes st: "storesInstance s = Some st"
    and found: "fst (read_escrow P (map_of (escrow st) escrowId) s) = Inr (Some e)"
    and inv: "\<not> invalidated e"
    and now: "clock W (ticks s) = expiry_ms e"
  shows "fst (getEscrowEntry W P escrowId regulatorKey actorId s) \<noteq> Inl (EscrowExpired escrowId)"
proof -
  have r: "read_escrow P (map_of (escrow st) escrowId) s = (Inr (Some e), s)"
    using found read_escrow_state[of P "map_of (escrow st) escrowId" s] by (simp add: prod_eq_iff)
  show ?thesis
    using now inv
    by (simp add: getEscrowEntry_def bindM_def getStores_Some[OF st] kv_get_Some[OF st]
        kv_of_def r Date_now_def decrypt_def retE_def throwE_def appendAuditLog_unfold st
        split: option.splits if_splits sum.splits)
qed

lemma purge_boundary:
  assumes st: "storesInstance s = Some st"
    and only: "escrow st = [(escrowId, raw)]"
    and found: "fst (read_escrow P (Some raw) s) = Inr (Some e)"
    and now: "clock W (ticks s) = expiry_ms e"
  shows "purgeExpiredEscrow W P s = (Inr 0, s\<lparr>ticks := Suc (ticks s)\<rparr>)"
proof -
  have r: "read_escrow P (Some raw) (s\<lparr>ticks := Suc (ticks s)\<rparr>)
      = (Inr (Some e), s\<lparr>ticks := Suc (ticks s)\<rparr>)"
    by (rule read_escrow_eq[OF found]) simp
  show ?thesis
    using now
    by (simp add: purgeExpiredEscrow_def bindM_def getStores_Some[OF st] Date_now_def only r
        retE_def)
qed

text \<open>
  Claim C4 asks that an entry whose \<open>expiresAt\<close> equals the clock reading be treated as
  expired. The code compares with \<open>>\<close>: at \<open>now = expiresAt\<close> (a stored \<open>null\<close> being
  read as 0 by the comparison, \<open>expiry_ms\<close>) \<open>getEscrowEntry\<close> does not
  fail with the expired error and \<open>purgeExpiredEscrow\<close> counts nothing and leaves the store
  as it is, while \<open>rotateEscrowEntry\<close> without force, at the same instant, no longer defers:
  it treats the retention as over.
\<close>

theorem expiry_boundary:
  assumes st: "storesInstance s = Some st"
    and only: "escrow st = [(escrowId, raw)]"
    and found: "fst (read_escrow P (Some raw) s) = Inr (Some e)"
    and inv: "\<not> invalidated e"
    and now: "clock W (ticks s) = expiry_ms e"
  shows "fst (getEscrowEntry W P escrowId regulatorKey actorId s) \<noteq> Inl (EscrowExpired escrowId)
     \<and> purgeExpiredEscrow W P s = (Inr 0, s\<lparr>ticks := Suc (ticks s)\<rparr>)
     \<and> (\<forall>res. fst (rotateEscrowEntry W P escrowId actorId False s) = Inr res \<longrightarrow> fst res)"
proof -
  have f: "fst (read_escrow P (map_of (escrow st) escrowId) s) = Inr (Some e)"
    using found only by simp
  show ?thesis
    using getEscrowEntry_boundary[OF st f inv now] purge_boundary[OF st only found now]
      rotate_not_deferred[OF st f now]
    by blast
qed

lemma demo_keys_differ: "to_hex (demo_key 1) \<noteq> to_hex (demo_key 2)"
  by code_simp

lemma demo_after_put_stores:
  "storesInstance demo_after_put =
      Some \<lparr>escrow = [(''01ESCROW'', sealed_kv demo_world demo_prims (demo_key 7) 3
                         (EscrowEntry_to_json demo_entry))],
           nullifiers = [], proofCache = [],
           auditLog = [sealed_log demo_world demo_prims (demo_key 7) 5
                     \<lparr>action = escrow_create, resourceId = ''01ESCROW'', actor = ''system'',
                      audit_timestamp = 1004,
                      metadata = [(''regulatorKeyId'', ''default''), (''jurisdiction'', ''US''),
                                  (''credentialId'', ''cred-1'')]\<rparr>]\<rparr>"
  by (simp add: demo_after_put_eq)

lemma demo_after_put_keys:
  "storeKeys (demo_after_put\<lparr>ticks := n\<rparr>) ''escrow'' = Some (demo_key 7)"
  "storeKeys (demo_after_put\<lparr>ticks := n\<rparr>) ''auditLog'' = Some (demo_key 7)"
  "storeKeys demo_after_put ''escrow'' = Some (demo_key 7)"
  "storeKeys demo_after_put ''auditLog'' = Some (demo_key 7)"
  by (simp_all add: demo_after_put_eq demo_server_keys)

theorem expiry_boundary_witness:
  "clock demo_world (ticks (demo_after_put\<lparr>ticks := 157788000002\<rparr>)) = expiry_ms demo_entry
   \<and> \<not> invalidated demo_entry
   \<and> fst (getEscrowEntry demo_world demo_prims ''01ESCROW'' (demo_key 1) ''regulator''
        (demo_after_put\<lparr>ticks := 157788000002\<rparr>)) \<noteq> Inl (EscrowExpired ''01ESCROW'')
   \<and> purgeExpiredEscrow demo_world demo_prims (demo_after_put\<lparr>ticks := 157788000002\<rparr>)
        = (Inr 0, demo_after_put\<lparr>ticks := 157788000003\<rparr>)"
proof -
  let ?s = "demo_after_put\<lparr>ticks := 157788000002\<rparr>"
  have st: "storesInstance ?s =
      Some \<lparr>escrow = [(''01ESCROW'', sealed_kv demo_world demo_prims (demo_key 7) 3
                         (EscrowEntry_to_json demo_entry))],
           nullifiers = [], proofCache = [],
           auditLog = [sealed_log demo_world demo_prims (demo_key 7) 5
                     \<lparr>action = escrow_create, resourceId = ''01ESCROW'', actor = ''system'',
                      audit_timestamp = 1004,
                      metadata = [(''regulatorKeyId'', ''default''), (''jurisdiction'', ''US''),
                                  (''credentialId'', ''cred-1'')]\<rparr>]\<rparr>"
    by (simp add: demo_after_put_stores)
  have found: "fst (read_escrow demo_prims
        (Some (sealed_kv demo_world demo_prims (demo_key 7) 3 (EscrowEntry_to_json demo_entry))) ?s)
      = Inr (Some demo_entry)"
    by (simp add: demo_read[OF demo_after_put_keys(1)])
  have now: "clock demo_world (ticks ?s) = expiry_ms demo_entry"
    by (simp add: demo_entry_expiresAt demo_world_def)
  from expiry_boundary[OF st _ found demo_entry_live now, of "''01ESCROW''" "demo_key 1" "''regulator''"]
    now demo_entry_live
  show ?thesis by simp
qed

text \<open>At the boundary the read succeeds and returns the PII.\<close>

lemma demo_boundary_get:
  "fst (getEscrowEntry demo_world demo_prims ''01ESCROW'' (demo_key 1) ''regulator''
        (demo_after_put\<lparr>ticks := 157788000002\<rparr>)) = Inr demo_pii"
proof -
  let ?s = "demo_after_put\<lparr>ticks := 157788000002\<rparr>"
  have st: "storesInstance ?s = storesInstance demo_after_put" by simp
  have found: "fst (read_escrow demo_prims
        (map_of (escrow (the (storesInstance demo_after_put))) ''01ESCROW'') ?s)
      = Inr (Some demo_entry)"
    by (simp add: demo_after_put_stores demo_read[OF demo_after_put_keys(1)])
  have live: "clock demo_world (ticks ?s) \<le> expiry_ms demo_entry"
    by (simp add: demo_entry_expiresAt demo_world_def)
  have st': "storesInstance ?s = Some (the (storesInstance demo_after_put))"
    by (simp add: demo_after_put_stores)
  note g = getEscrowEntry_live[OF st' found demo_entry_live live demo_after_put_keys(2)
      length_demo_key, where regulatorKey = "demo_key 1" and actorId = "''regulator''"]
  have p: "JSON_parse demo_prims (JSON_stringify demo_prims demo_pii) = Inr demo_pii"
    using json_roundtrip_demo[of demo_pii] by (simp add: json_roundtrip_def)
  show ?thesis
    unfolding g using p
    by (simp add: bindM_def decrypt_def length_demo_key demo_entry_def put_entry_def retE_def
        demo_prims_def demo_seal_def demo_open_def)
qed

theorem getEscrowEntry_audits_access_witness:
  "fst (getEscrowEntry demo_world demo_prims ''01ESCROW'' (demo_key 2) ''intruder''
        demo_after_put)
     = Inl (CryptoThrow ''Unsupported state or unable to authenticate data'')
   \<and> storesInstance (snd (getEscrowEntry demo_world demo_prims ''01ESCROW'' (demo_key 2)
        ''intruder'' demo_after_put))
     = Some \<lparr>escrow = [(''01ESCROW'', sealed_kv demo_world demo_prims (demo_key 7) 3
                         (EscrowEntry_to_json demo_entry))],
           nullifiers = [], proofCache = [],
           auditLog = [sealed_log demo_world demo_prims (demo_key 7) 5
                     \<lparr>action = escrow_create, resourceId = ''01ESCROW'', actor = ''system'',
                      audit_timestamp = 1004,
                      metadata = [(''regulatorKeyId'', ''default''), (''jurisdiction'', ''US''),
                                  (''credentialId'', ''cred-1'')]\<rparr>,
                   sealed_log demo_world demo_prims (demo_key 7) 8
                     \<lparr>action = escrow_access, resourceId = ''01ESCROW'', actor = ''intruder'',
                      audit_timestamp = 1007,
                      metadata = [(''regulatorKeyId'', ''default'')]\<rparr>]\<rparr>"
proof -
  have found: "fst (read_escrow demo_prims
        (map_of (escrow \<lparr>escrow = [(''01ESCROW'', sealed_kv demo_world demo_prims (demo_key 7) 3
                         (EscrowEntry_to_json demo_entry))],
           nullifiers = [], proofCache = [],
           auditLog = [sealed_log demo_world demo_prims (demo_key 7) 5
                     \<lparr>action = escrow_create, resourceId = ''01ESCROW'', actor = ''system'',
                      audit_timestamp = 1004,
                      metadata = [(''regulatorKeyId'', ''default''), (''jurisdiction'', ''US''),
                                  (''credentialId'', ''cred-1'')]\<rparr>]\<rparr>) ''01ESCROW'') demo_after_put)
      = Inr (Some demo_entry)"
    by (simp add: demo_read[OF demo_after_put_keys(3)])
  have live: "clock demo_world (ticks demo_after_put) \<le> expiry_ms demo_entry"
    by (simp add: demo_entry_expiresAt demo_world_def demo_after_put_eq)
  have bad: "gcm_open demo_prims (demo_key 2) (iv (encryptedBlob demo_entry))
      (ciphertext (encryptedBlob demo_entry)) (tag (encryptedBlob demo_entry))
      = Inl ''Unsupported state or unable to authenticate data''"
    using demo_keys_differ
    by (simp add: demo_entry_def put_entry_def demo_prims_def demo_open_def demo_seal_def)
  have t: "ticks demo_after_put = 6" by (simp add: demo_after_put_eq)
  have rid: "regulatorKeyId demo_entry = ''default''" by (simp add: demo_entry_def put_entry_def)
  from getEscrowEntry_audits_access[OF demo_after_put_stores found demo_entry_live
      demo_after_put_keys(4) length_demo_key, of demo_world "demo_key 2" "''intruder''"]
    live bad length_demo_key[of 2]
  show ?thesis
    by (simp add: t rid demo_world_def)
qed

section \<open>Properties of the route \<open>POST /proof/verify\<close>\<close>

lemma isNullifierUsed_state: "snd (isNullifierUsed P n s) = s"
  by (simp add: isNullifierUsed_def bindM_def getStores_def kv_get_def decryptKVGet_def
      getStoreKey_def decrypt_def retE_def throwE_def
      split: option.splits sum.splits prod.splits if_splits)

lemma getCachedProofResult_state: "snd (getCachedProofResult P h s) = s"
  by (simp add: getCachedProofResult_def bindM_def getStores_def kv_get_def decryptKVGet_def
      getStoreKey_def decrypt_def retE_def throwE_def
      split: option.splits sum.splits prod.splits if_splits)

lemma memoryCache_get_stores:
  "storesInstance (snd (memoryCache_get W key s)) = storesInstance s
   \<and> storeKeys (snd (memoryCache_get W key s)) = storeKeys s"
  by (simp add: memoryCache_get_def split: option.splits)

lemma getCached_miss_stores:
  assumes "getCached W P h s = (None, s1)"
  shows "storesInstance s1 = storesInstance s \<and> storeKeys s1 = storeKeys s"
proof -
  obtain m s0 where m: "memoryCache_get W h s = (m, s0)" by (cases "memoryCache_get W h s")
  with memoryCache_get_stores[of W h s]
  have s0: "storesInstance s0 = storesInstance s \<and> storeKeys s0 = storeKeys s" by simp
  obtain r s0' where r: "getCachedProofResult P h s0 = (r, s0')" by (cases "getCachedProofResult P h s0")
  with getCachedProofResult_state[of P h s0] have "s0' = s0" by simp
  with assms m r s0 show ?thesis
    by (auto simp: getCached_def split: option.splits sum.splits)
qed

lemma registerNullifier_ok:
  assumes "storesInstance s = Some st"
    and "storeKeys s ''nullifiers'' = Some nk" "length nk = 32"
    and "storeKeys s ''auditLog'' = Some k" "length k = 32"
  shows "registerNullifier W P n c a s =
     (Inr (),
      s\<lparr>ticks := Suc (Suc (Suc (Suc (ticks s)))),
        storesInstance := Some
          (st\<lparr>nullifiers := map_set (nullifiers st) n
                  (sealed_kv W P nk (Suc (ticks s))
                     (NullifierEntry_to_json
                        \<lparr>used = True, ne_credentialId = c, appId = a, usedAt = clock W (ticks s)\<rparr>)),
              auditLog := auditLog st @
                  [sealed_log W P k (Suc (Suc (Suc (ticks s))))
                     \<lparr>action = nullifier_register, resourceId = n, actor = ''system'',
                      audit_timestamp = clock W (Suc (Suc (ticks s))),
                      metadata = [(''appId'', a)]\<rparr>]\<rparr>)\<rparr>)"
  using assms
  by (simp add: registerNullifier_def bindM_def getStores_def Date_now_def
      encryptedKVPut_unfold appendAuditLog_unfold)

lemma isNullifierUsed_sealed:
  assumes g: "gcm_correct P"
    and j: "json_roundtrip P (NullifierEntry_to_json e)"
    and st: "storesInstance s = Some st"
    and m: "map_of (nullifiers st) n = Some (sealed_kv W P nk t (NullifierEntry_to_json e))"
    and k: "storeKeys s ''nullifiers'' = Some nk" "length nk = 32"
  shows "isNullifierUsed P n s = (Inr (used e), s)"
proof -
  let ?ivb = "map (random_byte W t) [0..<12]"
  let ?pt = "JSON_stringify P (NullifierEntry_to_json e)"
  from g k(2) length_iv[of W t]
  have o: "gcm_open P nk (to_hex ?ivb) (fst (gcm_seal P nk ?ivb ?pt)) (snd (gcm_seal P nk ?ivb ?pt)) = Inr ?pt"
    and ne: "?pt \<noteq> [] \<longrightarrow> fst (gcm_seal P nk ?ivb ?pt) \<noteq> []"
    unfolding gcm_correct_def by blast+
  from j have p: "JSON_parse P ?pt = Inr (NullifierEntry_to_json e)" and nn: "?pt \<noteq> []"
    by (simp_all add: json_roundtrip_def)
  from ne nn have ne': "fst (gcm_seal P nk ?ivb ?pt) \<noteq> []" by simp
  have d: "decryptKVGet P (Some (sealed_kv W P nk t (NullifierEntry_to_json e))) ''nullifiers'' s
        = (Inr (Some (NullifierEntry_to_json e)), s)"
    using o ne' p k
    by (simp add: decryptKVGet_def sealed_kv_def bindM_def getStoreKey_def decrypt_def retE_def)
  have f: "field (NullifierEntry_to_json e) ''used'' = Some (JBool (used e))"
    by (simp add: NullifierEntry_to_json_def)
  show ?thesis
    by (simp add: isNullifierUsed_def bindM_def getStores_Some[OF st] kv_get_Some[OF st] kv_of_def
        m d f retE_def)
qed

lemma isNullifierUsed_absent:
  assumes "storesInstance s = Some st" "map_of (nullifiers st) n = None"
  shows "isNullifierUsed P n s = (Inr False, s)"
  using assms
  by (simp add: isNullifierUsed_def bindM_def getStores_def kv_get_def kv_of_def retE_def)

lemma cacheProofResult_nullifiers:
  "map_option nullifiers (storesInstance (snd (cacheProofResult W P h v n s)))
     = map_option nullifiers (storesInstance s)"
  by (simp add: cacheProofResult_def bindM_def getStores_def Date_now_def encryptedKVPut_unfold
      split: option.splits)

lemma setCached_nullifiers:
  "map_option nullifiers (storesInstance (setCached W P h v n s))
     = map_option nullifiers (storesInstance s)"
  unfolding setCached_def
  by (simp add: cacheProofResult_nullifiers memoryCache_set_def)

text \<open>
  Claim C3. For a request that passes the schema, misses the cache and whose proof the
  verifier accepts, with the stores open, the key of the nullifier store derived and the
  nullifier read at index 5 of the public signals. If the nullifier store holds under that
  nullifier an entry as \<open>registerNullifier\<close> writes it (sealed with the store key, at any
  time, for any credential and application), then, AES-GCM being correct and the entry
  JSON-representable, the route answers 409 (\<open>valid: false\<close>) and the state is the one
  after the cache lookup, with the stores of before the request: nothing is registered
  again. If the nullifier store holds nothing under that nullifier, then, the key of the
  audit log being derived, \<open>registerNullifier\<close> succeeds and appends the nullifier with
  \<open>appId\<close> taken from index 4 and the credential \<open>unknown\<close>, and logs it; the route
  answers 200 with \<open>cached: false\<close>; its final state is \<open>setCached\<close> applied to the state
  after the registration, so the registration precedes the caching and the response; and
  the nullifier store of the final state holds that entry under the nullifier.
\<close>

theorem proof_route_nullifier:
  assumes schema: "proofVerifyRequestSchema sigs"
    and miss: "getCached W P (hashProof P prf sigs) s = (None, s1)"
    and ok: "verifyProof P groth16 prf sigs vkeyFile = Inr True"
    and st: "storesInstance s1 = Some st"
    and nk: "storeKeys s1 ''nullifiers'' = Some nk" "length nk = 32"
  shows "(\<forall>W' t c a u.
            gcm_correct P
          \<and> json_roundtrip P (NullifierEntry_to_json
                \<lparr>used = True, ne_credentialId = c, appId = a, usedAt = u\<rparr>)
          \<and> map_of (nullifiers st) (signal_or_zero sigs 5) =
               Some (sealed_kv W' P nk t (NullifierEntry_to_json
                 \<lparr>used = True, ne_credentialId = c, appId = a, usedAt = u\<rparr>)) \<longrightarrow>
            proof_route W P groth16 vkeyFile prf sigs s = (Conflict409 (signal_or_zero sigs 5), s1)
          \<and> storesInstance s1 = storesInstance s)
   \<and> (\<forall>k. map_of (nullifiers st) (signal_or_zero sigs 5) = None
          \<and> storeKeys s1 ''auditLog'' = Some k \<and> length k = 32 \<longrightarrow>
        registerNullifier W P (signal_or_zero sigs 5) ''unknown'' (signal_or_zero sigs 4) s1 =
          (Inr (),
           s1\<lparr>ticks := ticks s1 + 4,
              storesInstance := Some
                (st\<lparr>nullifiers := nullifiers st @
                        [(signal_or_zero sigs 5,
                          sealed_kv W P nk (ticks s1 + 1)
                           (NullifierEntry_to_json
                              \<lparr>used = True, ne_credentialId = ''unknown'',
                               appId = signal_or_zero sigs 4, usedAt = clock W (ticks s1)\<rparr>))],
                    auditLog := auditLog st @
                        [sealed_log W P k (ticks s1 + 3)
                           \<lparr>action = nullifier_register, resourceId = signal_or_zero sigs 5,
                            actor = ''system'', audit_timestamp = clock W (ticks s1 + 2),
                            metadata = [(''appId'', signal_or_zero sigs 4)]\<rparr>]\<rparr>)\<rparr>)
      \<and> proof_route W P groth16 vkeyFile prf sigs s =
          (Ok200 True (signal_or_zero sigs 5) False,
           setCached W P (hashProof P prf sigs) True (signal_or_zero sigs 5)
             (snd (registerNullifier W P (signal_or_zero sigs 5) ''unknown''
                     (signal_or_zero sigs 4) s1)))
      \<and> map_option (\<lambda>st'. map_of (nullifiers st') (signal_or_zero sigs 5))
           (storesInstance (snd (proof_route W P groth16 vkeyFile prf sigs s))) =
          Some (Some (sealed_kv W P nk (ticks s1 + 1)
                           (NullifierEntry_to_json
                              \<lparr>used = True, ne_credentialId = ''unknown'',
                               appId = signal_or_zero sigs 4, usedAt = clock W (ticks s1)\<rparr>))))"
proof -
  let ?n = "signal_or_zero sigs 5"
  let ?a = "signal_or_zero sigs 4"
  have A: "proof_route W P groth16 vkeyFile prf sigs s = (Conflict409 ?n, s1)
          \<and> storesInstance s1 = storesInstance s"
    if g: "gcm_correct P"
      and j: "json_roundtrip P (NullifierEntry_to_json
                \<lparr>used = True, ne_credentialId = c, appId = a, usedAt = u\<rparr>)"
      and m: "map_of (nullifiers st) ?n =
               Some (sealed_kv W' P nk t (NullifierEntry_to_json
                 \<lparr>used = True, ne_credentialId = c, appId = a, usedAt = u\<rparr>))"
    for W' t c a u
  proof -
    have "isNullifierUsed P ?n s1 = (Inr True, s1)"
      using isNullifierUsed_sealed[OF g j st m nk] by simp
    then show ?thesis
      using schema miss ok getCached_miss_stores[OF miss] by (simp add: proof_route_def)
  qed
  have B: "registerNullifier W P ?n ''unknown'' ?a s1 =
          (Inr (),
           s1\<lparr>ticks := ticks s1 + 4,
              storesInstance := Some
                (st\<lparr>nullifiers := nullifiers st @
                        [(?n, sealed_kv W P nk (ticks s1 + 1)
                           (NullifierEntry_to_json
                              \<lparr>used = True, ne_credentialId = ''unknown'',
                               appId = ?a, usedAt = clock W (ticks s1)\<rparr>))],
                    auditLog := auditLog st @
                        [sealed_log W P k (ticks s1 + 3)
                           \<lparr>action = nullifier_register, resourceId = ?n,
                            actor = ''system'', audit_timestamp = clock W (ticks s1 + 2),
                            metadata = [(''appId'', ?a)]\<rparr>]\<rparr>)\<rparr>)
      \<and> proof_route W P groth16 vkeyFile prf sigs s =
          (Ok200 True ?n False,
           setCached W P (hashProof P prf sigs) True ?n
             (snd (registerNullifier W P ?n ''unknown'' ?a s1)))
      \<and> map_option (\<lambda>st'. map_of (nullifiers st') ?n)
           (storesInstance (snd (proof_route W P groth16 vkeyFile prf sigs s))) =
          Some (Some (sealed_kv W P nk (ticks s1 + 1)
                           (NullifierEntry_to_json
                              \<lparr>used = True, ne_credentialId = ''unknown'',
                               appId = ?a, usedAt = clock W (ticks s1)\<rparr>)))"
    if absent: "map_of (nullifiers st) ?n = None"
      and ak: "storeKeys s1 ''auditLog'' = Some k" "length k = 32"
    for k
  proof -
    have notin: "?n \<notin> fst ` set (nullifiers st)"
      using absent by (simp add: map_of_eq_None_iff)
    have reg: "registerNullifier W P ?n ''unknown'' ?a s1 =
          (Inr (),
           s1\<lparr>ticks := ticks s1 + 4,
              storesInstance := Some
                (st\<lparr>nullifiers := nullifiers st @
                        [(?n, sealed_kv W P nk (ticks s1 + 1)
                           (NullifierEntry_to_json
                              \<lparr>used = True, ne_credentialId = ''unknown'',
                               appId = ?a, usedAt = clock W (ticks s1)\<rparr>))],
                    auditLog := auditLog st @
                        [sealed_log W P k (ticks s1 + 3)
                           \<lparr>action = nullifier_register, resourceId = ?n,
                            actor = ''system'', audit_timestamp = clock W (ticks s1 + 2),
                            metadata = [(''appId'', ?a)]\<rparr>]\<rparr>)\<rparr>)"
      unfolding registerNullifier_ok[OF st nk ak] map_set_new[OF notin]
      by (simp add: eval_nat_numeral)
    have unused: "isNullifierUsed P ?n s1 = (Inr False, s1)"
      by (rule isNullifierUsed_absent[OF st absent])
    have route: "proof_route W P groth16 vkeyFile prf sigs s =
          (Ok200 True ?n False,
           setCached W P (hashProof P prf sigs) True ?n
             (snd (registerNullifier W P ?n ''unknown'' ?a s1)))"
      using schema miss ok unused reg by (simp add: proof_route_def)
    have "map_option nullifiers (storesInstance (snd (proof_route W P groth16 vkeyFile prf sigs s)))
        = map_option nullifiers (storesInstance (snd (registerNullifier W P ?n ''unknown'' ?a s1)))"
      by (simp add: route setCached_nullifiers)
    also have "\<dots> = Some (nullifiers st @
                        [(?n, sealed_kv W P nk (ticks s1 + 1)
                           (NullifierEntry_to_json
                              \<lparr>used = True, ne_credentialId = ''unknown'',
                               appId = ?a, usedAt = clock W (ticks s1)\<rparr>))])"
      by (simp add: reg)
    finally have "map_option (\<lambda>st'. map_of (nullifiers st') ?n)
           (storesInstance (snd (proof_route W P groth16 vkeyFile prf sigs s))) =
          Some (Some (sealed_kv W P nk (ticks s1 + 1)
                           (NullifierEntry_to_json
                              \<lparr>used = True, ne_credentialId = ''unknown'',
                               appId = ?a, usedAt = clock W (ticks s1)\<rparr>)))"
      using absent
      by (cases "storesInstance (snd (proof_route W P groth16 vkeyFile prf sigs s))")
         (auto simp: map_add_def)
    with reg route show ?thesis by simp
  qed
  show ?thesis using A B by blast
qed

lemma demo_signals_nth:
  "signal_or_zero demo_signals 5 = ''555''" "signal_or_zero demo_signals 4 = ''7''"
  "proofVerifyRequestSchema demo_signals"
  by (simp_all add: signal_or_zero_def demo_signals_def proofVerifyRequestSchema_def)

lemma demo_verifyProof:
  "verifyProof demo_prims groth16_accept prf sigs demo_vkey_file = Inr True"
  by (simp add: verifyProof_def demo_vkey_file_def demo_prims_def demo_parse_def
      demo_stringify_def groth16_accept_def)

lemma demo_after_register_eq:
  "demo_after_register =
     demo_server\<lparr>ticks := 4,
        storesInstance := Some
          \<lparr>escrow = [],
           nullifiers = [(''555'', sealed_kv demo_world demo_prims (demo_key 7) 1
                 (NullifierEntry_to_json
                    \<lparr>used = True, ne_credentialId = ''unknown'', appId = ''7'', usedAt = 1000\<rparr>))],
           proofCache = [],
           auditLog = [sealed_log demo_world demo_prims (demo_key 7) 3
                     \<lparr>action = nullifier_register, resourceId = ''555'', actor = ''system'',
                      audit_timestamp = 1002, metadata = [(''appId'', ''7'')]\<rparr>]\<rparr>\<rparr>"
proof -
  have t: "ticks demo_server = 0" by (simp add: demo_server_def)
  show ?thesis
    unfolding demo_after_register_def
    by (simp add: registerNullifier_ok[OF demo_server_stores demo_server_keys(3) length_demo_key
          demo_server_keys(2) length_demo_key] t map_set_def demo_world_def eval_nat_numeral)
qed

lemma getCached_empty:
  assumes "storesInstance s = Some st" "proofCache st = []" "cache (memoryCache s) = []"
  shows "getCached W P h s = (None, s)"
  using assms
  by (simp add: getCached_def memoryCache_get_def getCachedProofResult_def bindM_def getStores_def
      kv_get_def kv_of_def decryptKVGet_def retE_def)

theorem proof_route_nullifier_witness:
  "fst (proof_route demo_world demo_prims groth16_accept demo_vkey_file
          (JObj [(''pi_a'', JStr ''1'')]) demo_signals demo_server) = Ok200 True ''555'' False
   \<and> proof_route demo_world demo_prims groth16_accept demo_vkey_file
          (JObj [(''pi_a'', JStr ''2'')]) demo_signals demo_after_register
       = (Conflict409 ''555'', demo_after_register)"
proof -
  have miss1: "getCached demo_world demo_prims h demo_server = (None, demo_server)" for h
    by (rule getCached_empty[OF demo_server_stores]) (simp_all add: demo_server_def)
  have absent: "map_of (nullifiers \<lparr>escrow = [], nullifiers = [], proofCache = [], auditLog = []\<rparr>)
      (signal_or_zero demo_signals 5) = None"
    by simp
  from proof_route_nullifier[OF demo_signals_nth(3) miss1 demo_verifyProof demo_server_stores
      demo_server_keys(3) length_demo_key] absent demo_server_keys(2) length_demo_key[of 7]
  have "proof_route demo_world demo_prims groth16_accept demo_vkey_file
          (JObj [(''pi_a'', JStr ''1'')]) demo_signals demo_server =
          (Ok200 True (signal_or_zero demo_signals 5) False,
           setCached demo_world demo_prims
             (hashProof demo_prims (JObj [(''pi_a'', JStr ''1'')]) demo_signals) True
             (signal_or_zero demo_signals 5)
             (snd (registerNullifier demo_world demo_prims (signal_or_zero demo_signals 5)
                     ''unknown'' (signal_or_zero demo_signals 4) demo_server)))"
    by blast
  then have first: "fst (proof_route demo_world demo_prims groth16_accept demo_vkey_file
          (JObj [(''pi_a'', JStr ''1'')]) demo_signals demo_server) = Ok200 True ''555'' False"
    by (simp add: demo_signals_nth)
  have st2: "storesInstance demo_after_register = Some
          \<lparr>escrow = [],
           nullifiers = [(''555'', sealed_kv demo_world demo_prims (demo_key 7) 1
                 (NullifierEntry_to_json
                    \<lparr>used = True, ne_credentialId = ''unknown'', appId = ''7'', usedAt = 1000\<rparr>))],
           proofCache = [],
           auditLog = [sealed_log demo_world demo_prims (demo_key 7) 3
                     \<lparr>action = nullifier_register, resourceId = ''555'', actor = ''system'',
                      audit_timestamp = 1002, metadata = [(''appId'', ''7'')]\<rparr>]\<rparr>"
    by (simp add: demo_after_register_eq)
  have miss2: "getCached demo_world demo_prims h demo_after_register = (None, demo_after_register)" for h
    by (rule getCached_empty[OF st2]) (simp_all add: demo_after_register_eq demo_server_def)
  have k2: "storeKeys demo_after_register ''nullifiers'' = Some (demo_key 7)"
    by (simp add: demo_after_register_eq demo_server_keys)
  have reg: "map_of (nullifiers \<lparr>escrow = [],
           nullifiers = [(''555'', sealed_kv demo_world demo_prims (demo_key 7) 1
                 (NullifierEntry_to_json
                    \<lparr>used = True, ne_credentialId = ''unknown'', appId = ''7'', usedAt = 1000\<rparr>))],
           proofCache = [],
           auditLog = [sealed_log demo_world demo_prims (demo_key 7) 3
                     \<lparr>action = nullifier_register, resourceId = ''555'', actor = ''system'',
                      audit_timestamp = 1002, metadata = [(''appId'', ''7'')]\<rparr>]\<rparr>)
        (signal_or_zero demo_signals 5) =
      Some (sealed_kv demo_world demo_prims (demo_key 7) 1
                 (NullifierEntry_to_json
                    \<lparr>used = True, ne_credentialId = ''unknown'', appId = ''7'', usedAt = 1000\<rparr>))"
    by (simp add: demo_signals_nth)
  from proof_route_nullifier[OF demo_signals_nth(3) miss2 demo_verifyProof st2 k2 length_demo_key]
    gcm_correct_demo json_roundtrip_demo reg
  have "proof_route demo_world demo_prims groth16_accept demo_vkey_file
          (JObj [(''pi_a'', JStr ''2'')]) demo_signals demo_after_register
       = (Conflict409 (signal_or_zero demo_signals 5), demo_after_register)"
    by blast
  then show ?thesis using first by (simp add: demo_signals_nth)
qed

section \<open>Properties of the credential issuance\<close>

lemma hex_val_digit: "n < 16 \<Longrightarrow> hex_val (hex_digit n) = Some n"
proof -
  assume n: "n < 16"
  have "map_of (zip ''0123456789abcdef'' [0..<16]) (''0123456789abcdef'' ! n) = Some ([0..<16] ! n)"
    by (rule map_of_zip_nth) (use n in simp_all)
  then show ?thesis using n by (simp add: hex_val_def hex_digit_def del: upt_Suc)
qed

lemma from_hex_to_hex: "from_hex (to_hex bs) = bs"
proof (induction bs)
  case Nil
  then show ?case by (simp add: to_hex_def)
next
  case (Cons b bs)
  have "unat b < 2 ^ LENGTH(8)" by (rule unsigned_less)
  then have lt: "unat b div 16 < 16" by simp
  have w: "word_of_nat (16 * (unat b div 16) + unat b mod 16) = b" by simp
  have "to_hex (b # bs) = hex_digit (unat b div 16) # hex_digit (unat b mod 16) # to_hex bs"
    by (simp add: to_hex_def)
  then show ?case
    using Cons.IH w by (simp add: hex_val_digit[OF lt] hex_val_digit)
qed

lemma getIssuerKeyPair_env:
  assumes "issuerKeyPair ks = None" "issuerFile ks = None"
    "ZEROID_ISSUER_PRIVATE_KEY ks = Some envKey" "envKey \<noteq> []"
  shows "fst (getIssuerKeyPair L rnd ks) = \<lparr>privateKey = envKey, publicKey = prv2pub L rnd\<rparr>"
  using assms by (simp add: getIssuerKeyPair_def generateKeyPair_def)

lemma getIssuerKeyPair_fresh:
  assumes "issuerKeyPair ks = None" "issuerFile ks = None" "ZEROID_ISSUER_PRIVATE_KEY ks = None"
  shows "fst (getIssuerKeyPair L rnd ks) = \<lparr>privateKey = to_hex rnd, publicKey = prv2pub L rnd\<rparr>"
  using assms by (simp add: getIssuerKeyPair_def generateKeyPair_def)

lemma issueCredential_issues:
  assumes "parseDate E (dateOfBirth kyc) = Some dob"
  shows "fst (issueCredential L E ks kyc addr lvl) =
     Inr \<lparr>credId = uuid E,
          credentialHash = poseidon L [compute_age (today E) dob, countryCode kyc,
                                       bytes_to_int (secretBytes E)],
          signatureR8 = fst (signPoseidon L
             (from_hex (privateKey (fst (getIssuerKeyPair L (keyBytes E) ks))))
             (poseidon L [compute_age (today E) dob, countryCode kyc, bytes_to_int (secretBytes E)])),
          signatureS = snd (signPoseidon L
             (from_hex (privateKey (fst (getIssuerKeyPair L (keyBytes E) ks))))
             (poseidon L [compute_age (today E) dob, countryCode kyc, bytes_to_int (secretBytes E)])),
          issuerPubKey = publicKey (fst (getIssuerKeyPair L (keyBytes E) ks)),
          userSecret = bytes_to_int (secretBytes E),
          boundAddress = addr,
          level = (case lvl of Some l \<Rightarrow> l
                   | None \<Rightarrow> if countryCode kyc \<noteq> 0 \<and> compute_age (today E) dob \<noteq> 0 then 3
                             else if compute_age (today E) dob \<noteq> 0 then 1 else 0),
          issuedAt = now_ts E, credExpiresAt = now_ts E + CREDENTIAL_TTL_MS\<rparr>"
  using assms
  by (simp add: issueCredential_def Let_def hashCredential_def poseidonHash_def sign_def)

lemma issueCredential_invalid_date:
  assumes "parseDate E (dateOfBirth kyc) = None"
  shows "fst (issueCredential L E ks kyc addr lvl) = Inl RangeError"
  using assms by (simp add: issueCredential_def Let_def)

text \<open>
  Claim C5, as the code has it. \<open>issueCredential\<close> computes the age as the difference of
  the years, less one when the birthday has not come yet this year, and applies no range
  check to it: for every date of birth the \<open>Date\<close> parser accepts, a credential is issued
  and its hash is taken over that age, whatever its value (only an invalid date stops the
  issuance, with a \<open>RangeError\<close>). The age lies in 0..255 exactly when the date of birth is
  not after the current date and less than 256 years before it.
\<close>

theorem issueCredential_age:
  "(\<forall>dob. parseDate E (dateOfBirth kyc) = Some dob \<longrightarrow>
      map_sum id credentialHash (fst (issueCredential L E ks kyc addr lvl)) =
        Inr (poseidon L [compute_age (today E) dob, countryCode kyc, bytes_to_int (secretBytes E)]))
   \<and> (parseDate E (dateOfBirth kyc) = None \<longrightarrow>
        fst (issueCredential L E ks kyc addr lvl) = Inl RangeError)
   \<and> compute_age now dob' =
        fullYear now - fullYear dob'
          - (if monthIx now < monthIx dob'
                \<or> (monthIx now = monthIx dob' \<and> dayOfMonth now < dayOfMonth dob') then 1 else 0)
   \<and> (0 \<le> compute_age now dob' \<and> compute_age now dob' \<le> 255 \<longleftrightarrow>
        (fullYear dob' < fullYear now
           \<or> (fullYear dob' = fullYear now
               \<and> \<not> (monthIx now < monthIx dob'
                      \<or> (monthIx now = monthIx dob' \<and> dayOfMonth now < dayOfMonth dob'))))
        \<and> (fullYear now - fullYear dob' \<le> 255
           \<or> (fullYear now - fullYear dob' = 256
               \<and> (monthIx now < monthIx dob'
                    \<or> (monthIx now = monthIx dob' \<and> dayOfMonth now < dayOfMonth dob')))))"
proof -
  have a: "map_sum id credentialHash (fst (issueCredential L E ks kyc addr lvl)) =
        Inr (poseidon L [compute_age (today E) dob, countryCode kyc, bytes_to_int (secretBytes E)])"
    if "parseDate E (dateOfBirth kyc) = Some dob" for dob
    by (simp add: issueCredential_issues[OF that])
  have b: "compute_age now dob' =
        fullYear now - fullYear dob'
          - (if monthIx now < monthIx dob'
                \<or> (monthIx now = monthIx dob' \<and> dayOfMonth now < dayOfMonth dob') then 1 else 0)"
    by (simp add: compute_age_def)
  have c: "(0 \<le> compute_age now dob' \<and> compute_age now dob' \<le> 255) \<longleftrightarrow>
        (fullYear dob' < fullYear now
           \<or> (fullYear dob' = fullYear now
               \<and> \<not> (monthIx now < monthIx dob'
                      \<or> (monthIx now = monthIx dob' \<and> dayOfMonth now < dayOfMonth dob'))))
        \<and> (fullYear now - fullYear dob' \<le> 255
           \<or> (fullYear now - fullYear dob' = 256
               \<and> (monthIx now < monthIx dob'
                    \<or> (monthIx now = monthIx dob' \<and> dayOfMonth now < dayOfMonth dob'))))"
    unfolding b by (cases "monthIx now < monthIx dob'
                \<or> (monthIx now = monthIx dob' \<and> dayOfMonth now < dayOfMonth dob')") auto
  show ?thesis
    using a b c issueCredential_invalid_date[of E kyc L ks addr lvl] by blast
qed

theorem issueCredential_age_witness:
  "map_sum id credentialHash
      (fst (issueCredential demo_lib demo_env demo_keys_fresh (demo_kyc ''1990-01-15'') None None))
     = Inr (poseidon demo_lib [36, 840, bytes_to_int (secretBytes demo_env)])
   \<and> compute_age (today demo_env) \<lparr>fullYear = 1990, monthIx = 0, dayOfMonth = 15\<rparr> = 36"
proof -
  have p: "parseDate demo_env (dateOfBirth (demo_kyc ''1990-01-15''))
      = Some \<lparr>fullYear = 1990, monthIx = 0, dayOfMonth = 15\<rparr>"
    by (simp add: demo_env_def demo_kyc_def demo_parseDate_def)
  have c: "compute_age (today demo_env) \<lparr>fullYear = 1990, monthIx = 0, dayOfMonth = 15\<rparr> = 36"
    by (simp add: compute_age_def demo_env_def)
  from issueCredential_age[where E = demo_env and kyc = "demo_kyc ''1990-01-15''" and L = demo_lib
      and ks = demo_keys_fresh and addr = None and lvl = None and now = "today demo_env"
      and dob' = "\<lparr>fullYear = 1990, monthIx = 0, dayOfMonth = 15\<rparr>"] p
  have "map_sum id credentialHash
      (fst (issueCredential demo_lib demo_env demo_keys_fresh (demo_kyc ''1990-01-15'') None None))
     = Inr (poseidon demo_lib [compute_age (today demo_env)
          \<lparr>fullYear = 1990, monthIx = 0, dayOfMonth = 15\<rparr>, countryCode (demo_kyc ''1990-01-15''),
          bytes_to_int (secretBytes demo_env)])"
    by blast
  then show ?thesis using c by (simp add: demo_kyc_def)
qed

text \<open>
  The claim as written has the age always within 0..255. On the 3rd of November 2026 a
  date of birth in 1700 gives the age 326 and one in 2999 gives -974, and a credential is
  issued over each.
\<close>

theorem issueCredential_age_out_of_range:
  "compute_age (today demo_env) \<lparr>fullYear = 1700, monthIx = 0, dayOfMonth = 1\<rparr> = 326
   \<and> map_sum id credentialHash
        (fst (issueCredential demo_lib demo_env demo_keys_fresh (demo_kyc ''1700-01-01'') None None))
      = Inr (poseidon demo_lib [326, 840, bytes_to_int (secretBytes demo_env)])
   \<and> compute_age (today demo_env) \<lparr>fullYear = 2999, monthIx = 11, dayOfMonth = 31\<rparr> = - 974
   \<and> map_sum id credentialHash
        (fst (issueCredential demo_lib demo_env demo_keys_fresh (demo_kyc ''2999-12-31'') None None))
      = Inr (poseidon demo_lib [- 974, 840, bytes_to_int (secretBytes demo_env)])"
proof -
  have p1: "parseDate demo_env (dateOfBirth (demo_kyc ''1700-01-01''))
      = Some \<lparr>fullYear = 1700, monthIx = 0, dayOfMonth = 1\<rparr>"
    by (simp add: demo_env_def demo_kyc_def demo_parseDate_def)
  have p2: "parseDate demo_env (dateOfBirth (demo_kyc ''2999-12-31''))
      = Some \<lparr>fullYear = 2999, monthIx = 11, dayOfMonth = 31\<rparr>"
    by (simp add: demo_env_def demo_kyc_def demo_parseDate_def)
  have c1: "compute_age (today demo_env) \<lparr>fullYear = 1700, monthIx = 0, dayOfMonth = 1\<rparr> = 326"
    by (simp add: compute_age_def demo_env_def)
  have c2: "compute_age (today demo_env) \<lparr>fullYear = 2999, monthIx = 11, dayOfMonth = 31\<rparr> = - 974"
    by (simp add: compute_age_def demo_env_def)
  have cc: "countryCode (demo_kyc d) = 840" for d
    by (simp add: demo_kyc_def)
  have h1: "map_sum id credentialHash
        (fst (issueCredential demo_lib demo_env demo_keys_fresh (demo_kyc ''1700-01-01'') None None))
      = Inr (poseidon demo_lib [326, 840, bytes_to_int (secretBytes demo_env)])"
    by (simp add: issueCredential_issues[OF p1] c1 cc)
  have h2: "map_sum id credentialHash
        (fst (issueCredential demo_lib demo_env demo_keys_fresh (demo_kyc ''2999-12-31'') None None))
      = Inr (poseidon demo_lib [- 974, 840, bytes_to_int (secretBytes demo_env)])"
    by (simp add: issueCredential_issues[OF p2] c2 cc)
  show ?thesis using c1 c2 h1 h2 by simp
qed

text \<open>
  With no cached pair, no key file and no environment variable, the issuer key is
  generated, and the credential verifies under the returned public key for every library
  whose signatures verify under the signer's key.
\<close>

lemma issueCredential_fresh_key_verifies:
  assumes ks: "issuerKeyPair ks = None" "issuerFile ks = None" "ZEROID_ISSUER_PRIVATE_KEY ks = None"
    and parse: "parseDate E (dateOfBirth kyc) = Some dob"
    and correct: "\<forall>k m. verifyPoseidon L m (signPoseidon L k m) (prv2pub L k)"
  shows "map_sum id (credential_verifies L) (fst (issueCredential L E ks kyc addr lvl)) = Inr True"
  using correct
  by (simp add: issueCredential_issues[OF parse] getIssuerKeyPair_fresh[OF ks]
      credential_verifies_def verify_def from_hex_to_hex)

text \<open>
  Claim C1 asks that the hash be the Poseidon hash of (age, country, secret) and that the
  signature verify under the returned issuer public key. The hash is as claimed. The
  signature does not always verify: when the issuer key comes from the environment variable
  \<open>ZEROID_ISSUER_PRIVATE_KEY\<close> (no cached pair, no key file), \<open>getIssuerKeyPair\<close> returns the
  public key of a freshly generated random key together with the private key of the
  environment. The credential is then signed with the environment key and carries the
  public key of the random one, and for a scheme in which a signature verifies only under
  the signer's public key the check fails whenever the two public keys differ.
\<close>

theorem issuer_env_key_mismatch:
  assumes ks: "issuerKeyPair ks = None" "issuerFile ks = None"
      "ZEROID_ISSUER_PRIVATE_KEY ks = Some envKey" "envKey \<noteq> []"
    and parse: "parseDate E (dateOfBirth kyc) = Some dob"
    and binding: "\<forall>k m pub. verifyPoseidon L m (signPoseidon L k m) pub \<longrightarrow> pub = prv2pub L k"
    and differ: "prv2pub L (from_hex envKey) \<noteq> prv2pub L (keyBytes E)"
  shows "case fst (issueCredential L E ks kyc addr lvl) of
           Inl e \<Rightarrow> False
         | Inr cred \<Rightarrow>
             credentialHash cred =
               poseidon L [compute_age (today E) dob, countryCode kyc, userSecret cred]
           \<and> issuerPubKey cred = prv2pub L (keyBytes E)
           \<and> (signatureR8 cred, signatureS cred) =
               signPoseidon L (from_hex envKey) (credentialHash cred)
           \<and> \<not> credential_verifies L cred"
proof -
  let ?h = "poseidon L [compute_age (today E) dob, countryCode kyc, bytes_to_int (secretBytes E)]"
  have "\<not> verifyPoseidon L ?h (signPoseidon L (from_hex envKey) ?h) (prv2pub L (keyBytes E))"
    using binding differ by metis
  then show ?thesis
    by (simp add: issueCredential_issues[OF parse] getIssuerKeyPair_env[OF ks]
        credential_verifies_def verify_def)
qed

lemma demo_env_key: "to_hex (demo_key 10) \<noteq> []"
  by (simp add: to_hex_def demo_key_def)

lemma demo_pubs_differ: "bytes_to_int (demo_key 10) \<noteq> bytes_to_int (demo_key 9)"
  by code_simp

theorem issuer_env_key_mismatch_witness:
  "map_sum id (credential_verifies demo_lib)
      (fst (issueCredential demo_lib demo_env demo_keys_env (demo_kyc ''1990-01-15'') None None))
     = Inr False
   \<and> map_sum id issuerPubKey
      (fst (issueCredential demo_lib demo_env demo_keys_env (demo_kyc ''1990-01-15'') None None))
     = Inr (prv2pub demo_lib (demo_key 9))"
proof -
  have ks: "issuerKeyPair demo_keys_env = None" "issuerFile demo_keys_env = None"
      "ZEROID_ISSUER_PRIVATE_KEY demo_keys_env = Some (to_hex (demo_key 10))"
    by (simp_all add: demo_keys_env_def)
  have parse: "parseDate demo_env (dateOfBirth (demo_kyc ''1990-01-15''))
      = Some \<lparr>fullYear = 1990, monthIx = 0, dayOfMonth = 15\<rparr>"
    by (simp add: demo_env_def demo_kyc_def demo_parseDate_def)
  have binding: "\<forall>k m pub. verifyPoseidon demo_lib m (signPoseidon demo_lib k m) pub
      \<longrightarrow> pub = prv2pub demo_lib k"
    by (simp add: demo_lib_def)
  have differ: "prv2pub demo_lib (from_hex (to_hex (demo_key 10))) \<noteq> prv2pub demo_lib (keyBytes demo_env)"
    using demo_pubs_differ by (simp add: from_hex_to_hex demo_lib_def demo_env_def)
  have kb: "keyBytes demo_env = demo_key 9" by (simp add: demo_env_def)
  from issuer_env_key_mismatch[OF ks demo_env_key parse binding differ, of None None]
  show ?thesis
    by (cases "fst (issueCredential demo_lib demo_env demo_keys_env (demo_kyc ''1990-01-15'') None None)")
       (simp_all add: kb)
qed

end
